theory Spec2Isabelle
  imports Complex_Main
begin

section \<open>JavaScript values\<close>

text \<open>
  A JavaScript string is a sequence of UTF-16 code units; \<open>s.length\<close> is the number of
  code units. A code unit is modelled as a natural number, and \<open>js\<close> turns a literal of
  the source into its code units.
\<close>

type_synonym jsstring = "nat list"

definition js :: "string \<Rightarrow> jsstring" where
  "js s = map of_char s"

text \<open>
  Numbers: the finite values are exact rationals (the rounding of IEEE doubles and the
  sign of zero are not modelled), next to the three values a division can produce besides.
\<close>

datatype jsnum = Fin rat | PosInf | NegInf | NaN

text \<open>
  The values a parsed JSON request can hold, and \<open>undefined\<close> for a missing property.
  The program never looks inside an array or a nested object.
\<close>

datatype jsval = JUndefined | JNull | JBool bool | JNum jsnum | JStr jsstring | JArr | JObj

text \<open>\<open>if (v)\<close> and \<open>!v\<close>: the truthiness of a value.\<close>

fun truthy :: "jsval \<Rightarrow> bool" where
  "truthy JUndefined = False"
| "truthy JNull = False"
| "truthy (JBool b) = b"
| "truthy (JNum (Fin r)) = (r \<noteq> 0)"
| "truthy (JNum PosInf) = True"
| "truthy (JNum NegInf) = True"
| "truthy (JNum NaN) = False"
| "truthy (JStr s) = (s \<noteq> [])"
| "truthy JArr = True"
| "truthy JObj = True"

text \<open>\<open>typeof v === 'string'\<close>\<close>

fun typeof_string :: "jsval \<Rightarrow> bool" where
  "typeof_string (JStr s) = True"
| "typeof_string v = False"

text \<open>\<open>xs.includes(v)\<close> for an array \<open>xs\<close> of strings: only an equal string is found.\<close>

fun array_includes :: "jsstring list \<Rightarrow> jsval \<Rightarrow> bool" where
  "array_includes xs (JStr s) = (s \<in> set xs)"
| "array_includes xs v = False"

text \<open>
  A thrown value. \<open>Error\<close> carries the message the source gives it; a \<open>TypeError\<close> is
  raised by the runtime, and its message is the wording of the V8 engine.
\<close>

datatype js_error = Error jsstring | TypeError jsstring

fun message :: "js_error \<Rightarrow> jsstring" where
  "message (Error m) = m"
| "message (TypeError m) = m"

section \<open>Voice configuration\<close>

record voice_profile =
  defaultVoice :: jsstring
  alternatives :: "jsstring list"

text \<open>The own properties of the object literal \<open>VOICE_CONFIG\<close>, in source order.\<close>

definition VOICE_CONFIG :: "(jsstring \<times> voice_profile) list" where
  "VOICE_CONFIG =
    [(js ''en-US'', \<lparr>defaultVoice = js ''en-US-RyanMultilingualNeural'',
        alternatives = [js ''en-US-JennyMultilingualNeural'', js ''en-US-AndrewMultilingualNeural'']\<rparr>),
     (js ''fi-FI'', \<lparr>defaultVoice = js ''en-US-RyanMultilingualNeural'',
        alternatives = [js ''en-US-JennyMultilingualNeural'', js ''fi-FI-SelmaNeural'',
                        js ''fi-FI-NooraNeural'', js ''fi-FI-HarriNeural'']\<rparr>),
     (js ''es-ES'', \<lparr>defaultVoice = js ''es-ES-AlvaroNeural'',
        alternatives = [js ''es-ES-ElviraNeural'']\<rparr>),
     (js ''de-DE'', \<lparr>defaultVoice = js ''de-DE-ConradNeural'',
        alternatives = [js ''de-DE-KatjaNeural'']\<rparr>),
     (js ''fr-FR'', \<lparr>defaultVoice = js ''fr-FR-DeniseNeural'',
        alternatives = [js ''fr-FR-HenriNeural'']\<rparr>),
     (js ''sv-SE'', \<lparr>defaultVoice = js ''sv-SE-MattiasNeural'',
        alternatives = [js ''sv-SE-SofieNeural'']\<rparr>)]"

text \<open>
  \<open>VOICE_CONFIG\<close> is a plain object, so \<open>VOICE_CONFIG[key]\<close> finds an own property
  first and then whatever the object inherits from \<open>Object.prototype\<close>. The inherited
  values are functions (and, for \<open>__proto__\<close>, the prototype object itself): each is
  truthy and has neither a \<open>default\<close> nor an \<open>alternatives\<close> property.
\<close>

definition Object_prototype_names :: "jsstring list" where
  "Object_prototype_names =
    [js ''constructor'', js ''__defineGetter__'', js ''__defineSetter__'',
     js ''hasOwnProperty'', js ''__lookupGetter__'', js ''__lookupSetter__'',
     js ''isPrototypeOf'', js ''propertyIsEnumerable'', js ''toString'',
     js ''valueOf'', js ''__proto__'', js ''toLocaleString'']"

datatype config_value = OwnProfile voice_profile | InheritedValue | NoValue

definition VOICE_CONFIG_get :: "jsstring \<Rightarrow> config_value" where
  "VOICE_CONFIG_get key =
    (case map_of VOICE_CONFIG key of
       Some p \<Rightarrow> OwnProfile p
     | None \<Rightarrow> if key \<in> set Object_prototype_names then InheritedValue else NoValue)"

text \<open>
  \<open>getVoiceForLanguage(language, requestedVoice = null)\<close>. The default parameter
  replaces \<open>undefined\<close> only. Reading a property of \<open>undefined\<close> raises a TypeError.
\<close>

definition getVoiceForLanguage :: "jsstring \<Rightarrow> jsval \<Rightarrow> js_error + jsval" where
  "getVoiceForLanguage language voice_arg =
    (let requestedVoice = (if voice_arg = JUndefined then JNull else voice_arg) in
     case VOICE_CONFIG_get language of
       NoValue \<Rightarrow>
         (case VOICE_CONFIG_get (js ''en-US'') of
            OwnProfile en \<Rightarrow> Inr (JStr (defaultVoice en))
          | InheritedValue \<Rightarrow> Inr JUndefined
          | NoValue \<Rightarrow> Inl (TypeError (js ''Cannot read properties of undefined (reading 'default')'')))
     | InheritedValue \<Rightarrow>
         if truthy requestedVoice
         then Inl (TypeError (js ''Cannot read properties of undefined (reading 'includes')''))
         else Inr JUndefined
     | OwnProfile langConfig \<Rightarrow>
         if truthy requestedVoice \<and>
            (requestedVoice = JStr (defaultVoice langConfig)
             \<or> array_includes (alternatives langConfig) requestedVoice)
         then Inr requestedVoice
         else Inr (JStr (defaultVoice langConfig)))"

section \<open>Strings and numbers of the runtime\<close>

definition cu :: "char \<Rightarrow> nat" where
  "cu c = of_char c"

text \<open>\<open>s.replace('-', '_')\<close> with a string pattern: only the first occurrence is replaced.\<close>

fun replace_first :: "nat \<Rightarrow> nat \<Rightarrow> jsstring \<Rightarrow> jsstring" where
  "replace_first a b [] = []"
| "replace_first a b (u # us) = (if u = a then b # us else u # replace_first a b us)"

text \<open>
  \<open>s.replace(/[...]/g, '-')\<close> for a character class without the \<open>u\<close> flag: every code
  unit in the class is replaced.
\<close>

definition replace_all :: "(nat \<Rightarrow> bool) \<Rightarrow> nat \<Rightarrow> jsstring \<Rightarrow> jsstring" where
  "replace_all cls b s = map (\<lambda>u. if cls u then b else u) s"

text \<open>\<open>[a-zA-Z0-9]\<close>\<close>

definition alnum :: "nat \<Rightarrow> bool" where
  "alnum u \<longleftrightarrow> (cu CHR ''a'' \<le> u \<and> u \<le> cu CHR ''z'')
             \<or> (cu CHR ''A'' \<le> u \<and> u \<le> cu CHR ''Z'')
             \<or> (cu CHR ''0'' \<le> u \<and> u \<le> cu CHR ''9'')"

text \<open>\<open>[:.]\<close>\<close>

definition colon_or_dot :: "nat \<Rightarrow> bool" where
  "colon_or_dot u \<longleftrightarrow> u = cu CHR '':'' \<or> u = cu CHR ''.''"

text \<open>
  \<open>\s\<close>: tab, line feed, vertical tab, form feed, carriage return, space, no-break space,
  the Unicode space separators, the line and paragraph separators and the byte order mark.
\<close>

definition whitespace :: "nat \<Rightarrow> bool" where
  "whitespace u \<longleftrightarrow> (9 \<le> u \<and> u \<le> 13) \<or> u = 32 \<or> u = 160 \<or> u = 5760
      \<or> (8192 \<le> u \<and> u \<le> 8202) \<or> u = 8232 \<or> u = 8233 \<or> u = 8239 \<or> u = 8287
      \<or> u = 12288 \<or> u = 65279"

text \<open>
  \<open>s.split(/\s+/)\<close>: the pieces between the maximal runs of whitespace; a run at either
  end leaves an empty piece there. \<open>piece\<close> holds the current piece, reversed.
\<close>

function split_whitespace :: "jsstring \<Rightarrow> jsstring \<Rightarrow> jsstring list" where
  "split_whitespace piece [] = [rev piece]"
| "split_whitespace piece (u # us) =
     (if whitespace u then rev piece # split_whitespace [] (dropWhile whitespace us)
      else split_whitespace (u # piece) us)"
  by pat_completeness auto
termination
  by (relation "measure (\<lambda>(piece, s). length s)")
     (auto simp: le_imp_less_Suc length_dropWhile_le)

text \<open>\<open>xs.join(sep)\<close>\<close>

fun join :: "jsstring \<Rightarrow> jsstring list \<Rightarrow> jsstring" where
  "join sep [] = []"
| "join sep [x] = x"
| "join sep (x # y # ys) = x @ sep @ join sep (y # ys)"

text \<open>
  \<open>a / b\<close> on finite numbers: a zero divisor gives an infinity or NaN, never an error.
\<close>

definition js_div :: "rat \<Rightarrow> rat \<Rightarrow> jsnum" where
  "js_div a b =
    (if b = 0 then (if a > 0 then PosInf else if a < 0 then NegInf else NaN)
     else Fin (a / b))"

text \<open>\<open>x * c\<close> for a finite constant \<open>c\<close>.\<close>

fun js_times :: "jsnum \<Rightarrow> rat \<Rightarrow> jsnum" where
  "js_times (Fin a) c = Fin (a * c)"
| "js_times PosInf c = (if c > 0 then PosInf else if c < 0 then NegInf else NaN)"
| "js_times NegInf c = (if c > 0 then NegInf else if c < 0 then PosInf else NaN)"
| "js_times NaN c = NaN"

section \<open>The environment of a call\<close>

text \<open>
  The calls the program makes to its collaborators, in order: the Speech SDK and the
  file system.
\<close>

datatype event =
    FromSubscription jsstring jsstring
  | NewSynthesizer jsstring jsstring
  | SpeakTextAsync jsstring
  | Close
  | WriteFileSync jsstring "nat list"

text \<open>
  What the SDK hands to the result callback: \<open>errorDetails\<close> is a string or undefined,
  \<open>audioData\<close> a buffer of bytes or undefined, \<open>audioDuration\<close> a whole number of
  100-nanosecond ticks or undefined.
\<close>

record sdk_result =
  errorDetails :: "jsstring option"
  audioData :: "nat list option"
  audioDuration :: "int option"

text \<open>
  What the SDK does with one call: it throws while the configuration is built
  (\<open>SpeechConfig.fromSubscription\<close> and the two assignments), while the synthesizer is
  constructed or from \<open>speakTextAsync\<close> itself, or it calls exactly one of the two
  callbacks once.
\<close>

datatype sdk_behaviour =
    ConfigThrows jsstring
  | ConstructorThrows jsstring
  | SpeakThrows jsstring
  | SpeakError jsstring
  | SpeakResult sdk_result

text \<open>
  Everything outside the source that one call depends on: the process environment, the
  clock, the SDK, the file system (\<open>writeFileSync\<close> returns, or throws an error with a
  message), \<open>path.resolve\<close>, and the conversions of numbers to text.
\<close>

record world =
  process_env :: "jsstring \<rightharpoonup> jsstring"
  date_toISOString :: jsstring
  date_now_start :: int
  date_now_callback :: int
  sdk :: sdk_behaviour
  writeFileSync_throws :: "jsstring option"
  path_resolve :: "jsstring \<Rightarrow> jsstring \<Rightarrow> jsstring"
  number_toString :: "rat \<Rightarrow> jsstring"
  number_toFixed :: "jsnum \<Rightarrow> nat \<Rightarrow> jsstring"

text \<open>
  \<open>a || b\<close> on values that are a string or undefined, and \<open>a || 'literal'\<close>, which is
  always a string.
\<close>

definition env_or :: "jsstring option \<Rightarrow> jsstring option \<Rightarrow> jsstring option" where
  "env_or a b = (case a of None \<Rightarrow> b | Some s \<Rightarrow> if s = [] then b else a)"

definition env_or_default :: "jsstring option \<Rightarrow> jsstring \<Rightarrow> jsstring" where
  "env_or_default a d = (case a of None \<Rightarrow> d | Some s \<Rightarrow> if s = [] then d else s)"

text \<open>\<open>!a\<close> on such a value.\<close>

definition env_falsy :: "jsstring option \<Rightarrow> bool" where
  "env_falsy a \<longleftrightarrow> (case a of None \<Rightarrow> True | Some s \<Rightarrow> s = [])"

text \<open>A string or undefined inside a template literal.\<close>

definition template :: "jsstring option \<Rightarrow> jsstring" where
  "template a = (case a of None \<Rightarrow> js ''undefined'' | Some s \<Rightarrow> s)"

definition AZURE_SPEECH_KEY :: "world \<Rightarrow> jsstring option" where
  "AZURE_SPEECH_KEY w =
     env_or (process_env w (js ''AZURE_SPEECH_KEY'')) (process_env w (js ''AZURE_SPEECH_KEY_FREE''))"

definition AZURE_SPEECH_REGION :: "world \<Rightarrow> jsstring" where
  "AZURE_SPEECH_REGION w =
     env_or_default (env_or (process_env w (js ''AZURE_SPEECH_REGION''))
                            (process_env w (js ''AZURE_SPEECH_REGION_FREE'')))
                    (js ''westeurope'')"

definition AUDIO_OUTPUT_DIR :: "world \<Rightarrow> jsstring" where
  "AUDIO_OUTPUT_DIR w =
     env_or_default (process_env w (js ''AUDIO_OUTPUT_DIR'')) (js ''./audio/mcp-generated'')"

section \<open>Synthesis\<close>

record metrics =
  m_synthesisTime :: int
  m_audioDuration :: rat
  m_wordCount :: nat
  m_charactersPerSecond :: jsstring
  m_wordsPerMinute :: jsstring

record synthesis_result =
  r_success :: bool
  r_audioFile :: jsstring
  r_filename :: jsstring
  r_voice :: jsstring
  r_language :: jsstring
  r_sentence :: jsstring
  r_metrics :: metrics

definition credentials_message :: jsstring where
  "credentials_message = js ''Azure Speech Service credentials not configured. Please set AZURE_SPEECH_KEY and AZURE_SPEECH_REGION environment variables.''"

definition no_audio_message :: jsstring where
  "no_audio_message = js ''Speech synthesis produced no audio data''"

text \<open>The outer \<open>catch\<close> of \<open>synthesizeSpeech\<close>.\<close>

definition setup_error :: "jsstring \<Rightarrow> js_error" where
  "setup_error m = Error (js ''Speech synthesis setup error: '' @ m)"

text \<open>
  The result callback of \<open>speakTextAsync\<close>. It returns the calls it makes and how it
  settles the promise: \<open>Inl\<close> for \<open>promiseReject\<close>, \<open>Inr\<close> for \<open>promiseResolve\<close>.
\<close>

definition result_callback ::
  "world \<Rightarrow> jsstring \<Rightarrow> jsstring \<Rightarrow> jsstring \<Rightarrow> jsstring \<Rightarrow> jsstring \<Rightarrow> nat \<Rightarrow> sdk_result
    \<Rightarrow> event list \<times> (js_error + synthesis_result)" where
  "result_callback w sentence language selectedVoice filename outputPath wordCount result =
    (let duration = date_now_callback w - date_now_start w in
     if \<not> env_falsy (errorDetails result)
     then ([Close], Inl (Error (js ''Speech synthesis failed: '' @ template (errorDetails result))))
     else case audioData result of
       None \<Rightarrow> ([Close], Inl (Error no_audio_message))
     | Some bytes \<Rightarrow>
         if length bytes = 0 then ([Close], Inl (Error no_audio_message))
         else case writeFileSync_throws w of
           Some m \<Rightarrow>
             ([WriteFileSync outputPath bytes, Close],
              Inl (Error (js ''Failed to save audio file: '' @ m)))
         | None \<Rightarrow>
             (let audioDuration_ms =
                    (case audioDuration result of
                       None \<Rightarrow> 0
                     | Some ticks \<Rightarrow> if ticks \<noteq> 0 then of_int ticks / 10000 else 0);
                  audioSeconds = audioDuration_ms / 1000
              in ([WriteFileSync outputPath bytes, Close],
                  Inr \<lparr>r_success = True,
                       r_audioFile = outputPath,
                       r_filename = filename,
                       r_voice = selectedVoice,
                       r_language = language,
                       r_sentence = sentence,
                       r_metrics = \<lparr>
                         m_synthesisTime = duration,
                         m_audioDuration = audioDuration_ms,
                         m_wordCount = wordCount,
                         m_charactersPerSecond =
                           (if duration > 0
                            then number_toFixed w
                                   (js_div (of_nat (length sentence)) (of_int duration / 1000)) 2
                            else js ''0.00''),
                         m_wordsPerMinute =
                           (if audioSeconds > 0
                            then number_toFixed w
                                   (js_times (js_div (of_nat wordCount) audioSeconds) 60) 2
                            else js ''0.00'')\<rparr>\<rparr>)))"

text \<open>The generated file name.\<close>

definition make_filename :: "jsstring \<Rightarrow> jsstring \<Rightarrow> jsstring \<Rightarrow> jsstring" where
  "make_filename language selectedVoice isoString =
    (let timestamp = replace_all colon_or_dot (cu CHR ''-'') isoString;
         languageCode = replace_first (cu CHR ''-'') (cu CHR ''_'') language;
         voiceName = replace_all (\<lambda>u. \<not> alnum u) (cu CHR ''-'') selectedVoice
     in js ''mcp-tts-'' @ languageCode @ js ''-'' @ voiceName @ js ''-'' @ timestamp @ js ''.wav'')"

text \<open>
  \<open>synthesizeSpeech(sentence, language, voice = null)\<close>, called with two strings. Whatever
  is thrown before the SDK calls back is caught and rejected as a setup error. A voice
  that is not a string can only be \<open>undefined\<close>, and calling \<open>replace\<close> on it raises a
  TypeError.
\<close>

definition synthesizeSpeech ::
  "world \<Rightarrow> jsstring \<Rightarrow> jsstring \<Rightarrow> jsval \<Rightarrow> event list \<times> (js_error + synthesis_result)" where
  "synthesizeSpeech w sentence language voice_arg =
    (let voice = (if voice_arg = JUndefined then JNull else voice_arg) in
     if env_falsy (AZURE_SPEECH_KEY w) \<or> AZURE_SPEECH_REGION w = []
     then ([], Inl (Error credentials_message))
     else case getVoiceForLanguage language voice of
       Inl e \<Rightarrow> ([], Inl (setup_error (message e)))
     | Inr selected \<Rightarrow>
        (let config = [FromSubscription (template (AZURE_SPEECH_KEY w)) (AZURE_SPEECH_REGION w)] in
         case sdk w of
           ConfigThrows m \<Rightarrow> (config, Inl (setup_error m))
         | behaviour \<Rightarrow>
            (case selected of
               JStr selectedVoice \<Rightarrow>
                 (let filename = make_filename language selectedVoice (date_toISOString w);
                      outputPath = path_resolve w (AUDIO_OUTPUT_DIR w) filename;
                      created = config @ [NewSynthesizer language selectedVoice];
                      wordCount = length (split_whitespace [] sentence);
                      called = created @ [SpeakTextAsync sentence]
                  in case behaviour of
                       ConstructorThrows m \<Rightarrow> (created, Inl (setup_error m))
                     | SpeakThrows m \<Rightarrow> (called, Inl (setup_error m))
                     | SpeakError e \<Rightarrow>
                         (called @ [Close], Inl (Error (js ''Speech synthesis error: '' @ e)))
                     | SpeakResult result \<Rightarrow>
                         (case result_callback w sentence language selectedVoice filename
                                 outputPath wordCount result of
                            (calls, settled) \<Rightarrow> (called @ calls, settled))
                     | ConfigThrows m \<Rightarrow> (config, Inl (setup_error m)))
             | other \<Rightarrow>
                 (config,
                  Inl (setup_error (js ''Cannot read properties of undefined (reading 'replace')''))))))"

section \<open>The tool list\<close>

record property_schema =
  schema_type :: jsstring
  description :: jsstring
  minLength :: "nat option"
  maxLength :: "nat option"
  enum_values :: "jsstring list option"
  default_value :: "jsstring option"
  examples :: "jsstring list option"

record input_schema =
  object_type :: jsstring
  properties :: "(jsstring \<times> property_schema) list"
  required :: "jsstring list"

record tool =
  tool_name :: jsstring
  tool_description :: jsstring
  inputSchema :: input_schema

text \<open>The handler registered for \<open>ListToolsRequestSchema\<close>; it takes no argument.\<close>

definition ListTools_handler :: "tool list" where
  "ListTools_handler =
    [\<lparr>tool_name = js ''synthesize_speech'',
      tool_description = js ''Convert text to speech using Microsoft Azure Speech Services. Supports multiple languages and voices.'',
      inputSchema = \<lparr>
        object_type = js ''object'',
        properties =
          [(js ''sentence'',
            \<lparr>schema_type = js ''string'',
             description = js ''The text to convert to speech'',
             minLength = Some 1, maxLength = Some 1000,
             enum_values = None, default_value = None, examples = None\<rparr>),
           (js ''language'',
            \<lparr>schema_type = js ''string'',
             description = js ''Language code (e.g., en-US, fi-FI, es-ES, de-DE, fr-FR, sv-SE)'',
             minLength = None, maxLength = None,
             enum_values = Some [js ''en-US'', js ''fi-FI'', js ''es-ES'', js ''de-DE'',
                                 js ''fr-FR'', js ''sv-SE''],
             default_value = Some (js ''en-US''), examples = None\<rparr>),
           (js ''voice'',
            \<lparr>schema_type = js ''string'',
             description = js ''Optional specific voice name. If not provided, uses the best voice for the language.'',
             minLength = None, maxLength = None,
             enum_values = None, default_value = None,
             examples = Some [js ''en-US-RyanMultilingualNeural'', js ''fi-FI-SelmaNeural'',
                              js ''es-ES-AlvaroNeural'', js ''de-DE-ConradNeural'',
                              js ''fr-FR-DeniseNeural'', js ''sv-SE-MattiasNeural'']\<rparr>)],
        required = [js ''sentence'', js ''language'']\<rparr>\<rparr>]"

section \<open>Tool calls\<close>

text \<open>
  The parameters of a \<open>tools/call\<close> request: the tool name, and the \<open>arguments\<close> object,
  which the protocol lets a client leave out. A property the object lacks reads as
  \<open>undefined\<close>.
\<close>

record call_params =
  params_name :: jsstring
  params_arguments :: "(jsstring \<rightharpoonup> jsval) option"

definition property :: "(jsstring \<rightharpoonup> jsval) \<Rightarrow> jsstring \<Rightarrow> jsval" where
  "property obj key = (case obj key of None \<Rightarrow> JUndefined | Some v \<Rightarrow> v)"

record content_item =
  item_type :: jsstring
  item_text :: jsstring

record response =
  content :: "content_item list"

definition supportedLanguages :: "jsstring list" where
  "supportedLanguages =
    [js ''en-US'', js ''fi-FI'', js ''es-ES'', js ''de-DE'', js ''fr-FR'', js ''sv-SE'']"

definition invalid_sentence :: js_error where
  "invalid_sentence = Error (js ''Invalid or missing \"sentence\" parameter'')"

definition invalid_language :: js_error where
  "invalid_language = Error (js ''Invalid or missing \"language\" parameter'')"

definition unsupported_language :: "jsstring \<Rightarrow> js_error" where
  "unsupported_language language =
     Error (js ''Unsupported language: '' @ language @ js ''. Supported languages: ''
            @ join (js '', '') supportedLanguages)"

text \<open>
  The two texts of a response. The first characters of each are the code units the
  source file holds there.
\<close>

definition success_text :: "world \<Rightarrow> synthesis_result \<Rightarrow> jsstring" where
  "success_text w result =
     [63743, 252, 233, 181] @ js '' Speech synthesis completed successfully!\<newline>\<newline>**Audio Details:**\<newline>- File: ''
     @ r_filename result @ js ''\<newline>- Path: '' @ r_audioFile result
     @ js ''\<newline>- Voice: '' @ r_voice result
     @ js ''\<newline>- Language: '' @ r_language result
     @ js ''\<newline>\<newline>**Performance Metrics:**\<newline>- Synthesis Time: ''
     @ number_toString w (of_int (m_synthesisTime (r_metrics result)))
     @ js ''ms\<newline>- Audio Duration: ''
     @ number_toString w (m_audioDuration (r_metrics result))
     @ js ''ms\<newline>- Word Count: ''
     @ number_toString w (of_nat (m_wordCount (r_metrics result)))
     @ js ''\<newline>- Characters/Second: '' @ m_charactersPerSecond (r_metrics result)
     @ js ''\<newline>- Words/Minute: '' @ m_wordsPerMinute (r_metrics result)
     @ js ''\<newline>\<newline>**Original Text:**\<newline>\"'' @ r_sentence result
     @ js ''\"\<newline>\<newline>The audio file has been saved and is ready for playback.''"

definition troubleshooting_tips :: jsstring where
  "troubleshooting_tips =
     js ''\<newline>\<newline>**Troubleshooting Tips:**\<newline>- Check that Azure Speech Service credentials are properly configured\<newline>- Verify the language code is supported: en-US, fi-FI, es-ES, de-DE, fr-FR, sv-SE\<newline>- Ensure the sentence is not empty and under 1000 characters\<newline>- Check that the voice name (if specified) is valid for the selected language''"

definition failure_text :: "jsstring \<Rightarrow> jsstring" where
  "failure_text m =
     [8218, 249, 229] @ js '' Speech synthesis failed: '' @ m @ troubleshooting_tips"

definition text_response :: "jsstring \<Rightarrow> response" where
  "text_response t = \<lparr>content = [\<lparr>item_type = js ''text'', item_text = t\<rparr>]\<rparr>"

text \<open>
  The handler registered for \<open>CallToolRequestSchema\<close>. \<open>Inl\<close> is an error thrown out of
  the handler, which the protocol layer turns into an error response; \<open>Inr\<close> is the
  returned response. Destructuring \<open>undefined\<close> raises a TypeError. The test
  \<open>!v || typeof v !== 'string'\<close> lets exactly the non-empty strings pass. A resolved
  result always has its metrics, so the check after the \<open>await\<close> never fires.
\<close>

definition CallTool_handler :: "world \<Rightarrow> call_params \<Rightarrow> event list \<times> (js_error + response)" where
  "CallTool_handler w params =
    (if params_name params \<noteq> js ''synthesize_speech''
     then ([], Inl (Error (js ''Unknown tool: '' @ params_name params)))
     else case params_arguments params of
       None \<Rightarrow>
         ([], Inl (TypeError (js ''Cannot destructure property 'sentence' of 'args' as it is undefined.'')))
     | Some args \<Rightarrow>
        (let voice = property args (js ''voice'') in
         case property args (js ''sentence'') of
           JStr sentence \<Rightarrow>
             if sentence = [] then ([], Inl invalid_sentence)
             else (case property args (js ''language'') of
               JStr language \<Rightarrow>
                 if language = [] then ([], Inl invalid_language)
                 else if \<not> array_includes supportedLanguages (JStr language)
                 then ([], Inl (unsupported_language language))
                 else (case synthesizeSpeech w sentence language voice of
                         (calls, Inr result) \<Rightarrow> (calls, Inr (text_response (success_text w result)))
                       | (calls, Inl error) \<Rightarrow>
                           (calls, Inr (text_response (failure_text (message error)))))
             | other \<Rightarrow> ([], Inl invalid_language))
         | other \<Rightarrow> ([], Inl invalid_sentence)))"

section \<open>Kinds of request, and example inputs\<close>

text \<open>
  The test the handler applies to \<open>sentence\<close> and to \<open>language\<close>, negated: the value
  passes \<open>!v || typeof v !== 'string'\<close>.
\<close>

definition valid_parameter :: "jsval \<Rightarrow> bool" where
  "valid_parameter v \<longleftrightarrow> truthy v \<and> typeof_string v"

text \<open>
  The three kinds of misuse of the interface. A request without an \<open>arguments\<close> object
  lacks both required parameters.
\<close>

definition unknown_tool :: "call_params \<Rightarrow> bool" where
  "unknown_tool params \<longleftrightarrow> params_name params \<noteq> js ''synthesize_speech''"

definition missing_parameter :: "call_params \<Rightarrow> bool" where
  "missing_parameter params \<longleftrightarrow>
     (case params_arguments params of
        None \<Rightarrow> True
      | Some args \<Rightarrow> \<not> valid_parameter (property args (js ''sentence''))
                   \<or> \<not> valid_parameter (property args (js ''language'')))"

definition unsupported_language_code :: "call_params \<Rightarrow> bool" where
  "unsupported_language_code params \<longleftrightarrow>
     (case params_arguments params of
        None \<Rightarrow> False
      | Some args \<Rightarrow>
          (case property args (js ''language'') of
             JStr language \<Rightarrow> language \<notin> set supportedLanguages
           | other \<Rightarrow> False))"

text \<open>
  A world in which everything works: the key is set, the SDK returns four bytes of audio
  lasting 1.5 seconds after half a second, and the file is written. How this world prints
  a number does not matter to what is shown about it.
\<close>

definition example_world :: world where
  "example_world =
    \<lparr>process_env = [js ''AZURE_SPEECH_KEY'' \<mapsto> js ''0123456789abcdef''],
     date_toISOString = js ''2025-08-17T16:30:45.123Z'',
     date_now_start = 1755448245123,
     date_now_callback = 1755448245623,
     sdk = SpeakResult \<lparr>errorDetails = None, audioData = Some [82, 73, 70, 70],
                        audioDuration = Some 15000000\<rparr>,
     writeFileSync_throws = None,
     path_resolve = (\<lambda>dir file. dir @ js ''/'' @ file),
     number_toString = (\<lambda>x. js ''(number)''),
     number_toFixed = (\<lambda>x digits. js ''(number)'')\<rparr>"

definition example_call :: call_params where
  "example_call =
    \<lparr>params_name = js ''synthesize_speech'',
     params_arguments = Some [js ''sentence'' \<mapsto> JStr (js ''Hello, this is a test.''),
                              js ''language'' \<mapsto> JStr (js ''en-US'')]\<rparr>"

section \<open>Basic facts\<close>

lemma js_eq_iff [simp]: "js s = js t \<longleftrightarrow> s = t"
  unfolding js_def by (simp add: inj_map_eq_map inj_on_def)

lemma js_Nil_iff [simp]: "js s = [] \<longleftrightarrow> s = []"
  by (simp add: js_def)

lemma Nil_js_iff [simp]: "[] = js s \<longleftrightarrow> s = []"
  by (simp add: js_def)

lemma js_append: "js (s @ t) = js s @ js t"
  by (simp add: js_def)

section \<open>Voice resolution\<close>

lemma registered_supported:
  "map_of VOICE_CONFIG L = Some p \<Longrightarrow> L \<in> set supportedLanguages"
  by (auto simp: VOICE_CONFIG_def supportedLanguages_def split: if_splits)

lemma supported_registered:
  "L \<in> set supportedLanguages \<Longrightarrow> \<exists>p. map_of VOICE_CONFIG L = Some p"
  by (auto simp: VOICE_CONFIG_def supportedLanguages_def)

lemma voices_nonempty:
  "map_of VOICE_CONFIG L = Some p \<Longrightarrow> defaultVoice p \<noteq> [] \<and> [] \<notin> set (alternatives p)"
  by (auto simp: VOICE_CONFIG_def split: if_splits)

lemma array_includes_iff: "array_includes xs V \<longleftrightarrow> V \<in> JStr ` set xs"
  by (cases V) auto

lemma getVoice_registered:
  assumes "map_of VOICE_CONFIG L = Some p"
  shows "getVoiceForLanguage L V =
          Inr (if V = JStr (defaultVoice p) \<or> V \<in> JStr ` set (alternatives p) then V
               else JStr (defaultVoice p))"
proof -
  from voices_nonempty[OF assms]
  have ne: "defaultVoice p \<noteq> []" "[] \<notin> set (alternatives p)" by auto
  have t: "V = JStr (defaultVoice p) \<or> V \<in> JStr ` set (alternatives p) \<Longrightarrow> truthy V"
    using ne by auto
  have u: "V = JUndefined \<Longrightarrow> \<not> (V = JStr (defaultVoice p) \<or> V \<in> JStr ` set (alternatives p))"
    by auto
  show ?thesis
    using assms t u
    by (auto simp: getVoiceForLanguage_def VOICE_CONFIG_get_def Let_def array_includes_iff)
qed

lemma en_US_profile:
  "map_of VOICE_CONFIG (js ''en-US'') =
     Some \<lparr>defaultVoice = js ''en-US-RyanMultilingualNeural'',
           alternatives = [js ''en-US-JennyMultilingualNeural'',
                           js ''en-US-AndrewMultilingualNeural'']\<rparr>"
  by (simp add: VOICE_CONFIG_def)

lemma fi_FI_profile:
  "map_of VOICE_CONFIG (js ''fi-FI'') =
     Some \<lparr>defaultVoice = js ''en-US-RyanMultilingualNeural'',
           alternatives = [js ''en-US-JennyMultilingualNeural'', js ''fi-FI-SelmaNeural'',
                           js ''fi-FI-NooraNeural'', js ''fi-FI-HarriNeural'']\<rparr>"
  by (simp add: VOICE_CONFIG_def)

lemma getVoice_unregistered:
  assumes "map_of VOICE_CONFIG L = None" "L \<notin> set Object_prototype_names"
  shows "getVoiceForLanguage L V = Inr (JStr (js ''en-US-RyanMultilingualNeural''))"
  using assms
  by (simp add: getVoiceForLanguage_def VOICE_CONFIG_get_def Let_def en_US_profile)

lemma getVoice_supported:
  assumes "L \<in> set supportedLanguages"
  shows "\<exists>v. getVoiceForLanguage L V = Inr (JStr v)"
proof -
  from supported_registered[OF assms] obtain p where p: "map_of VOICE_CONFIG L = Some p" ..
  show ?thesis
    unfolding getVoice_registered[OF p] by auto
qed

text \<open>
  What the function does where it resolves a voice. For a language code \<open>L\<close> with a
  registered profile \<open>p\<close> and any requested voice \<open>V\<close> (a string, or no voice at all),
  \<open>getVoiceForLanguage\<close> returns \<open>V\<close> when \<open>V\<close> is the default voice of \<open>p\<close> or one of its
  alternatives, and the default voice of \<open>p\<close> otherwise; in particular it returns the
  default voice when that is what was asked for, listed among the alternatives or not.
  For an \<open>L\<close> that the lookup does not find at all, it returns the default voice of the
  en-US profile whatever \<open>V\<close> is.
\<close>

lemma getVoiceForLanguage_resolves:
  "(map_of VOICE_CONFIG L = Some p \<longrightarrow>
       getVoiceForLanguage L V =
         Inr (if V = JStr (defaultVoice p) \<or> V \<in> JStr ` set (alternatives p) then V
              else JStr (defaultVoice p))
     \<and> getVoiceForLanguage L (JStr (defaultVoice p)) = Inr (JStr (defaultVoice p)))
   \<and> (map_of VOICE_CONFIG L = None \<and> L \<notin> set Object_prototype_names \<longrightarrow>
       (\<exists>en. map_of VOICE_CONFIG (js ''en-US'') = Some en
             \<and> getVoiceForLanguage L V = Inr (JStr (defaultVoice en))))"
proof (intro conjI impI)
  assume p: "map_of VOICE_CONFIG L = Some p"
  show "getVoiceForLanguage L V =
         Inr (if V = JStr (defaultVoice p) \<or> V \<in> JStr ` set (alternatives p) then V
              else JStr (defaultVoice p))"
    by (rule getVoice_registered[OF p])
  show "getVoiceForLanguage L (JStr (defaultVoice p)) = Inr (JStr (defaultVoice p))"
    by (simp add: getVoice_registered[OF p])
next
  assume "map_of VOICE_CONFIG L = None \<and> L \<notin> set Object_prototype_names"
  then have "getVoiceForLanguage L V = Inr (JStr (js ''en-US-RyanMultilingualNeural''))"
    by (simp add: getVoice_unregistered)
  then show "\<exists>en. map_of VOICE_CONFIG (js ''en-US'') = Some en
                \<and> getVoiceForLanguage L V = Inr (JStr (defaultVoice en))"
    by (simp add: en_US_profile)
qed

text \<open>
  The same at the Finnish profile, whose default voice is not among its alternatives,
  and at the unregistered code xx-XX.
\<close>

lemma getVoiceForLanguage_resolves_examples:
  "getVoiceForLanguage (js ''fi-FI'') (JStr (js ''en-US-RyanMultilingualNeural''))
     = Inr (JStr (js ''en-US-RyanMultilingualNeural''))
   \<and> getVoiceForLanguage (js ''fi-FI'') (JStr (js ''fi-FI-SelmaNeural''))
     = Inr (JStr (js ''fi-FI-SelmaNeural''))
   \<and> getVoiceForLanguage (js ''fi-FI'') (JStr (js ''de-DE-KatjaNeural''))
     = Inr (JStr (js ''en-US-RyanMultilingualNeural''))
   \<and> getVoiceForLanguage (js ''fi-FI'') JUndefined
     = Inr (JStr (js ''en-US-RyanMultilingualNeural''))
   \<and> getVoiceForLanguage (js ''xx-XX'') (JStr (js ''fi-FI-SelmaNeural''))
     = Inr (JStr (js ''en-US-RyanMultilingualNeural''))"
proof -
  have none: "map_of VOICE_CONFIG (js ''xx-XX'') = None
              \<and> js ''xx-XX'' \<notin> set Object_prototype_names"
    by (simp add: VOICE_CONFIG_def Object_prototype_names_def)
  show ?thesis
    using getVoiceForLanguage_resolves[of "js ''fi-FI''" _ "JStr (js ''en-US-RyanMultilingualNeural'')"]
          getVoiceForLanguage_resolves[of "js ''fi-FI''" _ "JStr (js ''fi-FI-SelmaNeural'')"]
          getVoiceForLanguage_resolves[of "js ''fi-FI''" _ "JStr (js ''de-DE-KatjaNeural'')"]
          getVoiceForLanguage_resolves[of "js ''fi-FI''" _ JUndefined]
          getVoiceForLanguage_resolves[of "js ''xx-XX''" _ "JStr (js ''fi-FI-SelmaNeural'')"]
          none
    by (simp add: fi_FI_profile en_US_profile)
qed


section \<open>Synthesis: how the promise settles\<close>

lemma region_nonempty: "AZURE_SPEECH_REGION w \<noteq> []"
  by (auto simp: AZURE_SPEECH_REGION_def env_or_default_def env_or_def split: option.splits)

lemma getVoice_default_parameter:
  "getVoiceForLanguage l (if v = JUndefined then JNull else v) = getVoiceForLanguage l v"
  by (simp add: getVoiceForLanguage_def)

lemma synthesize_without_credentials:
  "env_falsy (AZURE_SPEECH_KEY w) \<Longrightarrow>
     synthesizeSpeech w sentence language voice = ([], Inl (Error credentials_message))"
  by (simp add: synthesizeSpeech_def)

lemma result_callback_resolved:
  assumes "result_callback w sentence language v filename outputPath wordCount res = (calls, Inr r)"
  shows "env_falsy (errorDetails res) \<and> writeFileSync_throws w = None
       \<and> (\<exists>bytes. audioData res = Some bytes \<and> bytes \<noteq> []
             \<and> calls = [WriteFileSync outputPath bytes, Close])
       \<and> r_filename r = filename \<and> r_audioFile r = outputPath \<and> r_voice r = v
       \<and> r_language r = language \<and> r_sentence r = sentence \<and> r_success r"
  using assms
  by (auto simp: result_callback_def Let_def split: if_splits option.splits)

lemma result_callback_metrics:
  assumes "result_callback w sentence language v filename outputPath wordCount res = (calls, Inr r)"
  shows "m_synthesisTime (r_metrics r) = date_now_callback w - date_now_start w
       \<and> m_wordCount (r_metrics r) = wordCount
       \<and> m_charactersPerSecond (r_metrics r) =
           (if date_now_callback w - date_now_start w > 0
            then number_toFixed w (Fin (of_nat (length sentence)
                                   / (of_int (date_now_callback w - date_now_start w) / 1000))) 2
            else js ''0.00'')
       \<and> m_wordsPerMinute (r_metrics r) =
           (case audioDuration res of
              None \<Rightarrow> js ''0.00''
            | Some ticks \<Rightarrow>
                if ticks > 0
                then number_toFixed w (Fin (of_nat wordCount / (of_int ticks / 10000 / 1000) * 60)) 2
                else js ''0.00'')"
  using assms
  by (auto simp: result_callback_def Let_def js_div_def split: if_splits option.splits)

lemma synthesize_resolved:
  assumes "synthesizeSpeech w sentence language voice = (calls, Inr r)"
  shows "\<not> env_falsy (AZURE_SPEECH_KEY w) \<and>
     (\<exists>v res cb. getVoiceForLanguage language voice = Inr (JStr v) \<and> sdk w = SpeakResult res
        \<and> result_callback w sentence language v
             (make_filename language v (date_toISOString w))
             (path_resolve w (AUDIO_OUTPUT_DIR w) (make_filename language v (date_toISOString w)))
             (length (split_whitespace [] sentence)) res = (cb, Inr r)
        \<and> calls = [FromSubscription (template (AZURE_SPEECH_KEY w)) (AZURE_SPEECH_REGION w),
                    NewSynthesizer language v, SpeakTextAsync sentence] @ cb)"
  using assms
  by (auto simp: synthesizeSpeech_def Let_def getVoice_default_parameter
           split: if_splits sum.splits jsval.splits sdk_behaviour.splits prod.splits)

section \<open>The call handler, case by case\<close>

lemma valid_parameter_iff: "valid_parameter v \<longleftrightarrow> (\<exists>s. v = JStr s \<and> s \<noteq> [])"
  by (cases v) (auto simp: valid_parameter_def)

lemma supported_nonempty: "l \<in> set supportedLanguages \<Longrightarrow> l \<noteq> []"
  by (auto simp: supportedLanguages_def)

lemma handler_valid:
  assumes "params_name params = js ''synthesize_speech''"
      and "params_arguments params = Some args"
      and "property args (js ''sentence'') = JStr s" and "s \<noteq> []"
      and "property args (js ''language'') = JStr l" and "l \<in> set supportedLanguages"
  shows "CallTool_handler w params =
          (fst (synthesizeSpeech w s l (property args (js ''voice''))),
           Inr (text_response
                 (case snd (synthesizeSpeech w s l (property args (js ''voice''))) of
                    Inl e \<Rightarrow> failure_text (message e)
                  | Inr r \<Rightarrow> success_text w r)))"
  using assms supported_nonempty[of l]
  by (auto simp: CallTool_handler_def Let_def split: prod.splits sum.splits)

lemma handler_unknown_tool:
  "params_name params \<noteq> js ''synthesize_speech'' \<Longrightarrow>
   CallTool_handler w params = ([], Inl (Error (js ''Unknown tool: '' @ params_name params)))"
  by (simp add: CallTool_handler_def)

lemma handler_no_arguments:
  "params_name params = js ''synthesize_speech'' \<Longrightarrow> params_arguments params = None \<Longrightarrow>
   CallTool_handler w params =
     ([], Inl (TypeError (js ''Cannot destructure property 'sentence' of 'args' as it is undefined.'')))"
  by (simp add: CallTool_handler_def)

lemma handler_invalid_sentence:
  "params_name params = js ''synthesize_speech'' \<Longrightarrow> params_arguments params = Some args \<Longrightarrow>
   \<not> valid_parameter (property args (js ''sentence'')) \<Longrightarrow>
   CallTool_handler w params = ([], Inl invalid_sentence)"
  by (auto simp: CallTool_handler_def Let_def valid_parameter_iff split: jsval.splits)

lemma handler_invalid_language:
  "params_name params = js ''synthesize_speech'' \<Longrightarrow> params_arguments params = Some args \<Longrightarrow>
   valid_parameter (property args (js ''sentence'')) \<Longrightarrow>
   \<not> valid_parameter (property args (js ''language'')) \<Longrightarrow>
   CallTool_handler w params = ([], Inl invalid_language)"
  by (auto simp: CallTool_handler_def Let_def valid_parameter_iff split: jsval.splits)

lemma handler_unsupported_language:
  "params_name params = js ''synthesize_speech'' \<Longrightarrow> params_arguments params = Some args \<Longrightarrow>
   valid_parameter (property args (js ''sentence'')) \<Longrightarrow>
   property args (js ''language'') = JStr l \<Longrightarrow> l \<noteq> [] \<Longrightarrow> l \<notin> set supportedLanguages \<Longrightarrow>
   CallTool_handler w params = ([], Inl (unsupported_language l))"
  by (auto simp: CallTool_handler_def Let_def valid_parameter_iff split: jsval.splits)

lemma join_supported:
  "join (js '', '') supportedLanguages = js ''en-US, fi-FI, es-ES, de-DE, fr-FR, sv-SE''"
  by (simp add: supportedLanguages_def js_def)

lemma synthesize_rejects_with_Error:
  "synthesizeSpeech w s l v = (calls, Inl e) \<Longrightarrow> \<exists>m. e = Error m"
  by (auto simp: synthesizeSpeech_def result_callback_def setup_error_def Let_def
           split: if_splits sum.splits jsval.splits sdk_behaviour.splits prod.splits option.splits)

lemma handler_raises_iff:
  "(\<exists>e. snd (CallTool_handler w params) = Inl e) \<longleftrightarrow>
     unknown_tool params \<or> missing_parameter params \<or> unsupported_language_code params"
proof (cases "params_name params = js ''synthesize_speech''")
  case False
  then show ?thesis by (simp add: handler_unknown_tool unknown_tool_def)
next
  case name: True
  show ?thesis
  proof (cases "params_arguments params")
    case None
    then show ?thesis using name
      by (simp add: handler_no_arguments missing_parameter_def)
  next
    case (Some args)
    show ?thesis
    proof (cases "valid_parameter (property args (js ''sentence''))")
      case False
      then show ?thesis using name Some
        by (simp add: handler_invalid_sentence missing_parameter_def)
    next
      case s: True
      show ?thesis
      proof (cases "valid_parameter (property args (js ''language''))")
        case False
        then show ?thesis using name Some s
          by (simp add: handler_invalid_language missing_parameter_def)
      next
        case True
        then obtain l where l: "property args (js ''language'') = JStr l" "l \<noteq> []"
          by (auto simp: valid_parameter_iff)
        from s obtain se where se: "property args (js ''sentence'') = JStr se" "se \<noteq> []"
          by (auto simp: valid_parameter_iff)
        show ?thesis
        proof (cases "l \<in> set supportedLanguages")
          case True
          then show ?thesis using name Some s l se \<open>valid_parameter (property args (js ''language''))\<close>
            by (simp add: handler_valid[OF name Some se l(1) True] unknown_tool_def
                          missing_parameter_def unsupported_language_code_def)
        next
          case False
          then show ?thesis using name Some s l
            by (simp add: handler_unsupported_language unsupported_language_code_def)
        qed
      qed
    qed
  qed
qed

lemma handler_raised_error:
  assumes "snd (CallTool_handler w params) = Inl e"
  shows "fst (CallTool_handler w params) = [] \<and>
         (e = Error (js ''Unknown tool: '' @ params_name params)
          \<or> e = TypeError (js ''Cannot destructure property 'sentence' of 'args' as it is undefined.'')
          \<or> e = invalid_sentence \<or> e = invalid_language
          \<or> (\<exists>l. e = unsupported_language l))"
  using assms
  by (auto simp: CallTool_handler_def Let_def
           split: if_splits option.splits jsval.splits prod.splits sum.splits)

lemma handler_returned_response:
  assumes "snd (CallTool_handler w params) = Inr resp"
  shows "\<exists>args s l. params_arguments params = Some args
           \<and> property args (js ''sentence'') = JStr s \<and> property args (js ''language'') = JStr l
           \<and> fst (CallTool_handler w params) = fst (synthesizeSpeech w s l (property args (js ''voice'')))
           \<and> resp = text_response
                 (case snd (synthesizeSpeech w s l (property args (js ''voice''))) of
                    Inl error \<Rightarrow> failure_text (message error)
                  | Inr result \<Rightarrow> success_text w result)"
  using assms
  by (auto simp: CallTool_handler_def Let_def
           split: if_splits option.splits jsval.splits prod.splits sum.splits)

lemma synthesize_resolved_only_without_failure:
  assumes "snd (synthesizeSpeech w s l v) = Inr r"
  shows "\<not> env_falsy (AZURE_SPEECH_KEY w)
       \<and> (\<exists>res bytes. sdk w = SpeakResult res \<and> env_falsy (errorDetails res)
              \<and> audioData res = Some bytes \<and> bytes \<noteq> [] \<and> writeFileSync_throws w = None)"
proof -
  obtain calls where c: "synthesizeSpeech w s l v = (calls, Inr r)"
    using assms by (cases "synthesizeSpeech w s l v") auto
  from synthesize_resolved[OF c] obtain sv res cb where
    k: "\<not> env_falsy (AZURE_SPEECH_KEY w)" and r: "sdk w = SpeakResult res"
    and cb: "result_callback w s l sv (make_filename l sv (date_toISOString w))
       (path_resolve w (AUDIO_OUTPUT_DIR w) (make_filename l sv (date_toISOString w)))
       (length (split_whitespace [] s)) res = (cb, Inr r)"
    by blast
  from result_callback_resolved[OF cb] k r show ?thesis by auto
qed

section \<open>Synthesis: from the environment to the outcome\<close>

lemma synthesize_resolves:
  assumes "\<not> env_falsy (AZURE_SPEECH_KEY w)" "getVoiceForLanguage l v = Inr (JStr sv)"
      "sdk w = SpeakResult res" "env_falsy (errorDetails res)"
      "audioData res = Some bytes" "bytes \<noteq> []" "writeFileSync_throws w = None"
  shows "\<exists>r. synthesizeSpeech w s l v =
           ([FromSubscription (template (AZURE_SPEECH_KEY w)) (AZURE_SPEECH_REGION w),
             NewSynthesizer l sv, SpeakTextAsync s,
             WriteFileSync (path_resolve w (AUDIO_OUTPUT_DIR w)
                              (make_filename l sv (date_toISOString w))) bytes,
             Close], Inr r)"
  using assms
  by (simp add: synthesizeSpeech_def Let_def getVoice_default_parameter region_nonempty
                result_callback_def)

lemma synthesize_no_audio:
  assumes "\<not> env_falsy (AZURE_SPEECH_KEY w)" "getVoiceForLanguage l v = Inr (JStr sv)"
      "sdk w = SpeakResult res" "env_falsy (errorDetails res)"
      "audioData res = None \<or> audioData res = Some []"
  shows "synthesizeSpeech w s l v =
           ([FromSubscription (template (AZURE_SPEECH_KEY w)) (AZURE_SPEECH_REGION w),
             NewSynthesizer l sv, SpeakTextAsync s, Close],
            Inl (Error no_audio_message))"
  using assms
  by (auto simp: synthesizeSpeech_def Let_def getVoice_default_parameter region_nonempty
                 result_callback_def)

lemma synthesize_error_details:
  assumes "\<not> env_falsy (AZURE_SPEECH_KEY w)" "getVoiceForLanguage l v = Inr (JStr sv)"
      "sdk w = SpeakResult res" "errorDetails res = Some d" "d \<noteq> []"
  shows "synthesizeSpeech w s l v =
           ([FromSubscription (template (AZURE_SPEECH_KEY w)) (AZURE_SPEECH_REGION w),
             NewSynthesizer l sv, SpeakTextAsync s, Close],
            Inl (Error (js ''Speech synthesis failed: '' @ d)))"
  using assms
  by (auto simp: synthesizeSpeech_def Let_def getVoice_default_parameter region_nonempty
                 result_callback_def env_falsy_def template_def)

lemma synthesize_no_audio_any_language:
  assumes "sdk w = SpeakResult res" "env_falsy (errorDetails res)"
      "audioData res = None \<or> audioData res = Some []"
  shows "(\<exists>m. snd (synthesizeSpeech w s l v) = Inl (Error m))
       \<and> (\<forall>path bytes. WriteFileSync path bytes \<notin> set (fst (synthesizeSpeech w s l v)))"
  using assms
  by (auto simp: synthesizeSpeech_def Let_def result_callback_def setup_error_def
           split: sum.splits jsval.splits)

section \<open>The example world\<close>

lemma example_key: "\<not> env_falsy (AZURE_SPEECH_KEY example_world)"
  by (simp add: example_world_def AZURE_SPEECH_KEY_def env_or_def env_falsy_def)

lemma example_voice: "getVoiceForLanguage (js ''en-US'') JUndefined = Inr (JStr (js ''en-US-RyanMultilingualNeural''))"
  by (simp add: getVoice_registered[OF en_US_profile])

lemma example_filename:
  "make_filename (js ''en-US'') (js ''en-US-RyanMultilingualNeural'') (js ''2025-08-17T16:30:45.123Z'')
   = js ''mcp-tts-en_US-en-US-RyanMultilingualNeural-2025-08-17T16-30-45-123Z.wav''"
  by (simp add: make_filename_def replace_all_def alnum_def colon_or_dot_def cu_def js_def)

lemma example_dir: "AUDIO_OUTPUT_DIR example_world = js ''./audio/mcp-generated''"
  by (simp add: AUDIO_OUTPUT_DIR_def example_world_def env_or_default_def)

lemma example_words: "length (split_whitespace [] (js ''Hello, this is a test.'')) = 5"
  by (simp add: js_def whitespace_def)

lemma example_fields:
  "sdk example_world = SpeakResult \<lparr>errorDetails = None, audioData = Some [82, 73, 70, 70],
                        audioDuration = Some 15000000\<rparr>"
  "date_toISOString example_world = js ''2025-08-17T16:30:45.123Z''"
  "date_now_start example_world = 1755448245123"
  "date_now_callback example_world = 1755448245623"
  "writeFileSync_throws example_world = None"
  "path_resolve example_world = (\<lambda>dir file. dir @ js ''/'' @ file)"
  "number_toString example_world = (\<lambda>x. js ''(number)'')"
  "number_toFixed example_world = (\<lambda>x digits. js ''(number)'')"
  by (simp_all add: example_world_def)

lemma example_region: "AZURE_SPEECH_REGION example_world = js ''westeurope''"
  by (simp add: AZURE_SPEECH_REGION_def example_world_def env_or_default_def env_or_def)

lemma example_key_value: "AZURE_SPEECH_KEY example_world = Some (js ''0123456789abcdef'')"
  by (simp add: AZURE_SPEECH_KEY_def example_world_def env_or_def)

lemma example_synthesis:
  "synthesizeSpeech example_world (js ''Hello, this is a test.'') (js ''en-US'') JUndefined =
    ([FromSubscription (js ''0123456789abcdef'') (js ''westeurope''),
      NewSynthesizer (js ''en-US'') (js ''en-US-RyanMultilingualNeural''),
      SpeakTextAsync (js ''Hello, this is a test.''),
      WriteFileSync (js ''./audio/mcp-generated/mcp-tts-en_US-en-US-RyanMultilingualNeural-2025-08-17T16-30-45-123Z.wav'') [82, 73, 70, 70],
      Close],
     Inr \<lparr>r_success = True,
          r_audioFile = js ''./audio/mcp-generated/mcp-tts-en_US-en-US-RyanMultilingualNeural-2025-08-17T16-30-45-123Z.wav'',
          r_filename = js ''mcp-tts-en_US-en-US-RyanMultilingualNeural-2025-08-17T16-30-45-123Z.wav'',
          r_voice = js ''en-US-RyanMultilingualNeural'',
          r_language = js ''en-US'',
          r_sentence = js ''Hello, this is a test.'',
          r_metrics = \<lparr>m_synthesisTime = 500, m_audioDuration = 1500, m_wordCount = 5,
                       m_charactersPerSecond = js ''(number)'', m_wordsPerMinute = js ''(number)''\<rparr>\<rparr>)"
  by (simp add: synthesizeSpeech_def Let_def getVoice_registered[OF en_US_profile] example_key
        example_fields example_region example_key_value example_dir example_filename example_words
        result_callback_def env_falsy_def js_div_def template_def js_append[symmetric])

section \<open>Metrics\<close>

text \<open>
  C4. In every successful synthesis outcome, \<open>charactersPerSecond\<close> and \<open>wordsPerMinute\<close>
  are each either the text \<open>0.00\<close> or a finite, non-negative number printed with two
  decimals; never an infinity or NaN. When the elapsed synthesis time is zero the first is
  \<open>0.00\<close>, and when the reported audio duration is zero the second is \<open>0.00\<close>.
\<close>

theorem metrics_finite_non_negative:
  assumes "synthesizeSpeech w sentence language voice = (calls, Inr r)"
  shows "(m_charactersPerSecond (r_metrics r) = js ''0.00''
          \<or> (\<exists>q\<ge>0. m_charactersPerSecond (r_metrics r) = number_toFixed w (Fin q) 2))
       \<and> (m_wordsPerMinute (r_metrics r) = js ''0.00''
          \<or> (\<exists>q\<ge>0. m_wordsPerMinute (r_metrics r) = number_toFixed w (Fin q) 2))
       \<and> (m_synthesisTime (r_metrics r) = 0 \<longrightarrow> m_charactersPerSecond (r_metrics r) = js ''0.00'')
       \<and> (m_audioDuration (r_metrics r) = 0 \<longrightarrow> m_wordsPerMinute (r_metrics r) = js ''0.00'')"
proof -
  from synthesize_resolved[OF assms] obtain v res cb where
    cb: "result_callback w sentence language v (make_filename language v (date_toISOString w))
          (path_resolve w (AUDIO_OUTPUT_DIR w) (make_filename language v (date_toISOString w)))
          (length (split_whitespace [] sentence)) res = (cb, Inr r)"
    by blast
  note m = result_callback_metrics[OF cb]
  let ?d = "date_now_callback w - date_now_start w"
  have cps: "m_charactersPerSecond (r_metrics r) = js ''0.00''
          \<or> (\<exists>q\<ge>0. m_charactersPerSecond (r_metrics r) = number_toFixed w (Fin q) 2)"
  proof (cases "?d > 0")
    case True
    let ?q = "(of_nat (length sentence) :: rat) / (of_int ?d / 1000)"
    from True have "0 \<le> ?q" by simp
    moreover from True m
    have "m_charactersPerSecond (r_metrics r) = number_toFixed w (Fin ?q) 2" by simp
    ultimately show ?thesis by blast
  next
    case False
    with m show ?thesis by simp
  qed
  have wpm: "m_wordsPerMinute (r_metrics r) = js ''0.00''
          \<or> (\<exists>q\<ge>0. m_wordsPerMinute (r_metrics r) = number_toFixed w (Fin q) 2)"
  proof (cases "audioDuration res")
    case None
    with m show ?thesis by simp
  next
    case (Some ticks)
    show ?thesis
    proof (cases "ticks > 0")
      case True
      let ?q = "(of_nat (length (split_whitespace [] sentence)) :: rat)
                  / (of_int ticks / 10000 / 1000) * 60"
      from True have "0 \<le> ?q" by simp
      moreover from True Some m
      have "m_wordsPerMinute (r_metrics r) = number_toFixed w (Fin ?q) 2" by simp
      ultimately show ?thesis by blast
    next
      case False
      with Some m show ?thesis by simp
    qed
  qed
  have z1: "m_synthesisTime (r_metrics r) = 0 \<longrightarrow> m_charactersPerSecond (r_metrics r) = js ''0.00''"
    using m by simp
  have z2: "m_audioDuration (r_metrics r) = 0 \<longrightarrow> m_wordsPerMinute (r_metrics r) = js ''0.00''"
    using cb
    by (auto simp: result_callback_def Let_def split: if_splits option.splits)
  from cps wpm z1 z2 show ?thesis by blast
qed


text \<open>
  The theorem in a world where the SDK answers within the same millisecond and reports an
  audio duration of zero.
\<close>

theorem metrics_finite_non_negative_witness:
  "\<exists>calls r.
     synthesizeSpeech
       (example_world\<lparr>date_now_callback := 1755448245123,
                      sdk := SpeakResult \<lparr>errorDetails = None, audioData = Some [82, 73, 70, 70],
                                         audioDuration = Some 0\<rparr>\<rparr>)
       (js ''Hello, this is a test.'') (js ''en-US'') JUndefined = (calls, Inr r)
     \<and> m_synthesisTime (r_metrics r) = 0
     \<and> m_charactersPerSecond (r_metrics r) = js ''0.00''
     \<and> m_audioDuration (r_metrics r) = 0
     \<and> m_wordsPerMinute (r_metrics r) = js ''0.00''"
proof -
  let ?w = "example_world\<lparr>date_now_callback := 1755448245123,
                      sdk := SpeakResult \<lparr>errorDetails = None, audioData = Some [82, 73, 70, 70],
                                         audioDuration = Some 0\<rparr>\<rparr>"
  have "\<exists>r. synthesizeSpeech ?w (js ''Hello, this is a test.'') (js ''en-US'') JUndefined =
          ([FromSubscription (template (AZURE_SPEECH_KEY ?w)) (AZURE_SPEECH_REGION ?w),
            NewSynthesizer (js ''en-US'') (js ''en-US-RyanMultilingualNeural''),
            SpeakTextAsync (js ''Hello, this is a test.''),
            WriteFileSync (path_resolve ?w (AUDIO_OUTPUT_DIR ?w)
               (make_filename (js ''en-US'') (js ''en-US-RyanMultilingualNeural'') (date_toISOString ?w)))
               [82, 73, 70, 70],
            Close], Inr r)"
    by (rule synthesize_resolves[where res = "\<lparr>errorDetails = None, audioData = Some [82, 73, 70, 70],
                                         audioDuration = Some 0\<rparr>"])
       (simp_all add: example_world_def AZURE_SPEECH_KEY_def env_or_def env_falsy_def example_voice)
  then obtain calls r where
    c: "synthesizeSpeech ?w (js ''Hello, this is a test.'') (js ''en-US'') JUndefined = (calls, Inr r)"
    by blast
  from synthesize_resolved[OF c] obtain v res cb where
    res: "sdk ?w = SpeakResult res" and
    cb: "result_callback ?w (js ''Hello, this is a test.'') (js ''en-US'') v
          (make_filename (js ''en-US'') v (date_toISOString ?w))
          (path_resolve ?w (AUDIO_OUTPUT_DIR ?w) (make_filename (js ''en-US'') v (date_toISOString ?w)))
          (length (split_whitespace [] (js ''Hello, this is a test.''))) res = (cb, Inr r)"
    by blast
  from res have res': "res = \<lparr>errorDetails = None, audioData = Some [82, 73, 70, 70],
                                         audioDuration = Some 0\<rparr>" by simp
  have t: "m_synthesisTime (r_metrics r) = 0"
    using result_callback_metrics[OF cb] by (simp add: example_world_def)
  have a: "m_audioDuration (r_metrics r) = 0"
    using cb unfolding res'
    by (auto simp: result_callback_def Let_def split: if_splits option.splits)
  from metrics_finite_non_negative[OF c] t a c show ?thesis by blast
qed

section \<open>The file name\<close>

lemma supported_one_hyphen:
  "language \<in> set supportedLanguages \<Longrightarrow>
     replace_first (cu CHR ''-'') (cu CHR ''_'') language
       = map (\<lambda>u. if u = cu CHR ''-'' then cu CHR ''_'' else u) language"
  by (auto simp: supportedLanguages_def js_def cu_def)

text \<open>
  C5. For every successful synthesis the generated file name is \<open>mcp-tts\<close>, a hyphen, the
  language code with its hyphen replaced by an underscore, a hyphen, the resolved voice
  name with every character that is not a letter or digit replaced by a hyphen, a hyphen,
  the ISO-8601 timestamp with every colon and full stop replaced by a hyphen, and
  \<open>.wav\<close>, in this order. The voice is the one \<open>getVoiceForLanguage\<close> resolved, and the
  audio is written to this name inside the output directory. The source replaces the
  first hyphen of the language code; each supported code has exactly one.
\<close>

theorem filename_convention:
  assumes "synthesizeSpeech w sentence language voice = (calls, Inr r)"
  shows "r_filename r =
           js ''mcp-tts-'' @ replace_first (cu CHR ''-'') (cu CHR ''_'') language @ js ''-''
           @ map (\<lambda>u. if alnum u then u else cu CHR ''-'') (r_voice r) @ js ''-''
           @ map (\<lambda>u. if u = cu CHR '':'' \<or> u = cu CHR ''.'' then cu CHR ''-'' else u)
                 (date_toISOString w)
           @ js ''.wav''
       \<and> getVoiceForLanguage language voice = Inr (JStr (r_voice r))
       \<and> r_audioFile r = path_resolve w (AUDIO_OUTPUT_DIR w) (r_filename r)
       \<and> (\<exists>bytes. bytes \<noteq> [] \<and> WriteFileSync (r_audioFile r) bytes \<in> set calls)
       \<and> (language \<in> set supportedLanguages \<longrightarrow>
            replace_first (cu CHR ''-'') (cu CHR ''_'') language
              = map (\<lambda>u. if u = cu CHR ''-'' then cu CHR ''_'' else u) language)"
proof -
  from synthesize_resolved[OF assms] obtain v res cb where
    v: "getVoiceForLanguage language voice = Inr (JStr v)" and
    cb: "result_callback w sentence language v (make_filename language v (date_toISOString w))
          (path_resolve w (AUDIO_OUTPUT_DIR w) (make_filename language v (date_toISOString w)))
          (length (split_whitespace [] sentence)) res = (cb, Inr r)" and
    calls: "calls = [FromSubscription (template (AZURE_SPEECH_KEY w)) (AZURE_SPEECH_REGION w),
                    NewSynthesizer language v, SpeakTextAsync sentence] @ cb"
    by blast
  note f = result_callback_resolved[OF cb]
  from f have name: "r_filename r = make_filename language v (date_toISOString w)"
    and voice: "r_voice r = v"
    and path: "r_audioFile r = path_resolve w (AUDIO_OUTPUT_DIR w) (r_filename r)"
    by simp_all
  from f calls path name
  have written: "\<exists>bytes. bytes \<noteq> [] \<and> WriteFileSync (r_audioFile r) bytes \<in> set calls"
    by auto
  have shape: "make_filename language v (date_toISOString w) =
           js ''mcp-tts-'' @ replace_first (cu CHR ''-'') (cu CHR ''_'') language @ js ''-''
           @ map (\<lambda>u. if alnum u then u else cu CHR ''-'') v @ js ''-''
           @ map (\<lambda>u. if u = cu CHR '':'' \<or> u = cu CHR ''.'' then cu CHR ''-'' else u)
                 (date_toISOString w)
           @ js ''.wav''"
    by (simp add: make_filename_def Let_def replace_all_def colon_or_dot_def if_distrib cong: if_cong)
  from name voice shape v path written supported_one_hyphen show ?thesis by simp
qed

text \<open>The theorem at the English request in the example world.\<close>

theorem filename_convention_witness:
  "\<exists>calls r.
     synthesizeSpeech example_world (js ''Hello, this is a test.'') (js ''en-US'') JUndefined
       = (calls, Inr r)
     \<and> r_voice r = js ''en-US-RyanMultilingualNeural''
     \<and> r_filename r = js ''mcp-tts-en_US-en-US-RyanMultilingualNeural-2025-08-17T16-30-45-123Z.wav''"
  using filename_convention[OF example_synthesis]
  by (simp add: example_synthesis)

section \<open>The texts of a response\<close>

lemma failure_response_literal:
  "text_response (failure_text m) =
     \<lparr>content = [\<lparr>item_type = js ''text'',
        item_text = [8218, 249, 229] @ js '' Speech synthesis failed: '' @ m
          @ js ''\<newline>\<newline>**Troubleshooting Tips:**\<newline>- Check that Azure Speech Service credentials are properly configured\<newline>- Verify the language code is supported: en-US, fi-FI, es-ES, de-DE, fr-FR, sv-SE\<newline>- Ensure the sentence is not empty and under 1000 characters\<newline>- Check that the voice name (if specified) is valid for the selected language''\<rparr>]\<rparr>"
  by (simp add: text_response_def failure_text_def troubleshooting_tips_def)

lemma success_text_begins:
  "\<exists>rest. success_text w result =
     [63743, 252, 233, 181]
     @ js '' Speech synthesis completed successfully!\<newline>\<newline>**Audio Details:**\<newline>- File: ''
     @ r_filename result @ rest"
  by (simp add: success_text_def)

section \<open>Failures of the synthesis\<close>

lemma example_call_fields:
  "params_name example_call = js ''synthesize_speech''"
  "params_arguments example_call =
     Some [js ''sentence'' \<mapsto> JStr (js ''Hello, this is a test.''),
           js ''language'' \<mapsto> JStr (js ''en-US'')]"
  by (simp_all add: example_call_def)

lemma en_US_supported: "js ''en-US'' \<in> set supportedLanguages"
  by (simp add: supportedLanguages_def)

text \<open>
  C6. If the speech-service key is absent (neither environment variable holds a
  non-empty value), \<open>synthesizeSpeech\<close> rejects at once with the configuration message and
  has made no call to the SDK or the file system. For a request that passes validation the
  handler then returns a normal response with one text item, whose text is the failure
  line with that message followed by the troubleshooting tips, as spelled out below; it
  does not raise.
\<close>

theorem missing_credentials_reported_as_content:
  assumes "env_falsy (AZURE_SPEECH_KEY w)"
  shows "synthesizeSpeech w sentence language voice = ([], Inl (Error (js ''Azure Speech Service credentials not configured. Please set AZURE_SPEECH_KEY and AZURE_SPEECH_REGION environment variables.'')))
       \<and> (params_name params = js ''synthesize_speech''
            \<and> params_arguments params = Some args
            \<and> valid_parameter (property args (js ''sentence''))
            \<and> property args (js ''language'') \<in> JStr ` set supportedLanguages
          \<longrightarrow> CallTool_handler w params
                = ([], Inr \<lparr>content = [\<lparr>item_type = js ''text'',
                     item_text = [8218, 249, 229]
                       @ js '' Speech synthesis failed: ''
                       @ js ''Azure Speech Service credentials not configured. Please set AZURE_SPEECH_KEY and AZURE_SPEECH_REGION environment variables.''
                       @ js ''\<newline>\<newline>**Troubleshooting Tips:**\<newline>- Check that Azure Speech Service credentials are properly configured\<newline>- Verify the language code is supported: en-US, fi-FI, es-ES, de-DE, fr-FR, sv-SE\<newline>- Ensure the sentence is not empty and under 1000 characters\<newline>- Check that the voice name (if specified) is valid for the selected language''\<rparr>]\<rparr>))"
proof (intro conjI impI)
  show "synthesizeSpeech w sentence language voice = ([], Inl (Error (js ''Azure Speech Service credentials not configured. Please set AZURE_SPEECH_KEY and AZURE_SPEECH_REGION environment variables.'')))"
    by (simp add: synthesize_without_credentials[OF assms] credentials_message_def)
next
  assume a: "params_name params = js ''synthesize_speech''
            \<and> params_arguments params = Some args
            \<and> valid_parameter (property args (js ''sentence''))
            \<and> property args (js ''language'') \<in> JStr ` set supportedLanguages"
  then obtain s l where s: "property args (js ''sentence'') = JStr s" "s \<noteq> []"
    and l: "property args (js ''language'') = JStr l" "l \<in> set supportedLanguages"
    by (auto simp: valid_parameter_iff)
  from a have n: "params_name params = js ''synthesize_speech''"
    and g: "params_arguments params = Some args" by simp_all
  show "CallTool_handler w params
                = ([], Inr \<lparr>content = [\<lparr>item_type = js ''text'',
                     item_text = [8218, 249, 229]
                       @ js '' Speech synthesis failed: ''
                       @ js ''Azure Speech Service credentials not configured. Please set AZURE_SPEECH_KEY and AZURE_SPEECH_REGION environment variables.''
                       @ js ''\<newline>\<newline>**Troubleshooting Tips:**\<newline>- Check that Azure Speech Service credentials are properly configured\<newline>- Verify the language code is supported: en-US, fi-FI, es-ES, de-DE, fr-FR, sv-SE\<newline>- Ensure the sentence is not empty and under 1000 characters\<newline>- Check that the voice name (if specified) is valid for the selected language''\<rparr>]\<rparr>)"
    by (simp add: handler_valid[OF n g s l] synthesize_without_credentials[OF assms]
                  failure_response_literal credentials_message_def)
qed

text \<open>The theorem in the example world with an empty environment.\<close>

theorem missing_credentials_reported_as_content_witness:
  "synthesizeSpeech (example_world\<lparr>process_env := Map.empty\<rparr>)
       (js ''Hello, this is a test.'') (js ''en-US'') JUndefined
     = ([], Inl (Error (js ''Azure Speech Service credentials not configured. Please set AZURE_SPEECH_KEY and AZURE_SPEECH_REGION environment variables.'')))
   \<and> CallTool_handler (example_world\<lparr>process_env := Map.empty\<rparr>) example_call
     = ([], Inr \<lparr>content = [\<lparr>item_type = js ''text'',
                     item_text = [8218, 249, 229]
                       @ js '' Speech synthesis failed: ''
                       @ js ''Azure Speech Service credentials not configured. Please set AZURE_SPEECH_KEY and AZURE_SPEECH_REGION environment variables.''
                       @ js ''\<newline>\<newline>**Troubleshooting Tips:**\<newline>- Check that Azure Speech Service credentials are properly configured\<newline>- Verify the language code is supported: en-US, fi-FI, es-ES, de-DE, fr-FR, sv-SE\<newline>- Ensure the sentence is not empty and under 1000 characters\<newline>- Check that the voice name (if specified) is valid for the selected language''\<rparr>]\<rparr>)"
proof -
  have k: "env_falsy (AZURE_SPEECH_KEY (example_world\<lparr>process_env := Map.empty\<rparr>))"
    by (simp add: AZURE_SPEECH_KEY_def env_or_def env_falsy_def)
  have v: "valid_parameter (property [js ''sentence'' \<mapsto> JStr (js ''Hello, this is a test.''),
           js ''language'' \<mapsto> JStr (js ''en-US'')] (js ''sentence''))"
    by (simp add: valid_parameter_def property_def)
  have l: "property [js ''sentence'' \<mapsto> JStr (js ''Hello, this is a test.''),
           js ''language'' \<mapsto> JStr (js ''en-US'')] (js ''language'') \<in> JStr ` set supportedLanguages"
    by (simp add: property_def en_US_supported)
  from missing_credentials_reported_as_content[OF k, of "js ''Hello, this is a test.''"
      "js ''en-US''" JUndefined example_call
      "[js ''sentence'' \<mapsto> JStr (js ''Hello, this is a test.''), js ''language'' \<mapsto> JStr (js ''en-US'')]"]
    v l show ?thesis
    by (simp add: example_call_fields)
qed

text \<open>
  C7. If the SDK calls back with a result that has no error details but whose audio is
  absent or has zero bytes, \<open>synthesizeSpeech\<close> rejects and never calls \<open>writeFileSync\<close>,
  whatever the language. For a supported language the rejection carries the no-audio
  message, and the calls made are those of an explicit synthesis failure (the same result
  with error details), which is rejected in the same way with its own message.
\<close>

theorem empty_audio_is_a_failure:
  assumes "\<not> env_falsy (AZURE_SPEECH_KEY w)"
      and "sdk w = SpeakResult res"
      and "env_falsy (errorDetails res)"
      and "audioData res = None \<or> audioData res = Some []"
  shows "(\<exists>m. snd (synthesizeSpeech w sentence language voice) = Inl (Error m))
       \<and> (\<forall>path bytes. WriteFileSync path bytes \<notin> set (fst (synthesizeSpeech w sentence language voice)))
       \<and> (language \<in> set supportedLanguages \<longrightarrow>
            snd (synthesizeSpeech w sentence language voice) = Inl (Error no_audio_message)
          \<and> (\<forall>d. d \<noteq> [] \<longrightarrow>
                synthesizeSpeech (w\<lparr>sdk := SpeakResult (res\<lparr>errorDetails := Some d\<rparr>)\<rparr>)
                                 sentence language voice
                  = (fst (synthesizeSpeech w sentence language voice),
                     Inl (Error (js ''Speech synthesis failed: '' @ d)))))"
proof -
  note any = synthesize_no_audio_any_language[OF assms(2,3,4), of sentence language voice]
  have sup: "language \<in> set supportedLanguages \<longrightarrow>
            snd (synthesizeSpeech w sentence language voice) = Inl (Error no_audio_message)
          \<and> (\<forall>d. d \<noteq> [] \<longrightarrow>
                synthesizeSpeech (w\<lparr>sdk := SpeakResult (res\<lparr>errorDetails := Some d\<rparr>)\<rparr>)
                                 sentence language voice
                  = (fst (synthesizeSpeech w sentence language voice),
                     Inl (Error (js ''Speech synthesis failed: '' @ d))))"
  proof
    assume "language \<in> set supportedLanguages"
    from getVoice_supported[OF this] obtain sv where
      sv: "getVoiceForLanguage language voice = Inr (JStr sv)" by blast
    note e = synthesize_no_audio[OF assms(1) sv assms(2,3,4), of sentence]
    have d: "synthesizeSpeech (w\<lparr>sdk := SpeakResult (res\<lparr>errorDetails := Some d\<rparr>)\<rparr>)
                                 sentence language voice
                  = (fst (synthesizeSpeech w sentence language voice),
                     Inl (Error (js ''Speech synthesis failed: '' @ d)))" if "d \<noteq> []" for d
    proof -
      let ?w = "w\<lparr>sdk := SpeakResult (res\<lparr>errorDetails := Some d\<rparr>)\<rparr>"
      have k: "\<not> env_falsy (AZURE_SPEECH_KEY ?w)"
        using assms(1) by (simp add: AZURE_SPEECH_KEY_def)
      have "synthesizeSpeech ?w sentence language voice =
           ([FromSubscription (template (AZURE_SPEECH_KEY ?w)) (AZURE_SPEECH_REGION ?w),
             NewSynthesizer language sv, SpeakTextAsync sentence, Close],
            Inl (Error (js ''Speech synthesis failed: '' @ d)))"
        by (rule synthesize_error_details[OF k sv _ _ that,
                    where res = "res\<lparr>errorDetails := Some d\<rparr>"]) simp_all
      then show ?thesis
        by (simp add: e AZURE_SPEECH_KEY_def AZURE_SPEECH_REGION_def)
    qed
    from e d show "snd (synthesizeSpeech w sentence language voice) = Inl (Error no_audio_message)
          \<and> (\<forall>d. d \<noteq> [] \<longrightarrow>
                synthesizeSpeech (w\<lparr>sdk := SpeakResult (res\<lparr>errorDetails := Some d\<rparr>)\<rparr>)
                                 sentence language voice
                  = (fst (synthesizeSpeech w sentence language voice),
                     Inl (Error (js ''Speech synthesis failed: '' @ d))))"
      by simp
  qed
  from any sup show ?thesis by blast
qed

text \<open>The theorem in the example world with an SDK that returns zero bytes.\<close>

theorem empty_audio_is_a_failure_witness:
  "synthesizeSpeech
      (example_world\<lparr>sdk := SpeakResult \<lparr>errorDetails = None, audioData = Some [],
                                          audioDuration = Some 0\<rparr>\<rparr>)
      (js ''Hello, this is a test.'') (js ''en-US'') JUndefined
   = ([FromSubscription (js ''0123456789abcdef'') (js ''westeurope''),
       NewSynthesizer (js ''en-US'') (js ''en-US-RyanMultilingualNeural''),
       SpeakTextAsync (js ''Hello, this is a test.''), Close],
      Inl (Error (js ''Speech synthesis produced no audio data'')))"
proof -
  let ?res = "\<lparr>errorDetails = None, audioData = Some [], audioDuration = Some 0\<rparr>"
  let ?w = "example_world\<lparr>sdk := SpeakResult ?res\<rparr>"
  have k: "\<not> env_falsy (AZURE_SPEECH_KEY ?w)"
    using example_key by (simp add: AZURE_SPEECH_KEY_def)
  have s: "sdk ?w = SpeakResult ?res" by simp
  have d: "env_falsy (errorDetails ?res)" by (simp add: env_falsy_def)
  have a: "audioData ?res = None \<or> audioData ?res = Some []" by simp
  from empty_audio_is_a_failure[OF k s d a, of "js ''Hello, this is a test.''" "js ''en-US''" JUndefined]
  have snd: "snd (synthesizeSpeech ?w (js ''Hello, this is a test.'') (js ''en-US'') JUndefined)
              = Inl (Error no_audio_message)"
    by (simp add: en_US_supported)
  have fst: "fst (synthesizeSpeech ?w (js ''Hello, this is a test.'') (js ''en-US'') JUndefined)
     = [FromSubscription (js ''0123456789abcdef'') (js ''westeurope''),
       NewSynthesizer (js ''en-US'') (js ''en-US-RyanMultilingualNeural''),
       SpeakTextAsync (js ''Hello, this is a test.''), Close]"
    using synthesize_no_audio[OF k example_voice s d a, of "js ''Hello, this is a test.''"]
    by (simp add: AZURE_SPEECH_KEY_def AZURE_SPEECH_REGION_def example_key_value[unfolded AZURE_SPEECH_KEY_def]
         example_region[unfolded AZURE_SPEECH_REGION_def] template_def)
  from fst snd show ?thesis
    by (simp add: prod_eq_iff no_audio_message_def)
qed

section \<open>Validation of a call\<close>

text \<open>
  C8, as the code has it. For every call of the registered tool whose \<open>sentence\<close> is a
  non-empty string and whose \<open>language\<close> is a non-empty string outside the six supported
  codes, the handler raises an error whose message names that language and lists the six
  supported codes, and it makes no call to the SDK or the file system.
\<close>

theorem unsupported_language_rejected:
  assumes "params_name params = js ''synthesize_speech''"
      and "params_arguments params = Some args"
      and "valid_parameter (property args (js ''sentence''))"
      and "property args (js ''language'') = JStr language"
      and "language \<noteq> []"
      and "language \<notin> set supportedLanguages"
  shows "CallTool_handler w params =
          ([], Inl (Error (js ''Unsupported language: '' @ language
                           @ js ''. Supported languages: en-US, fi-FI, es-ES, de-DE, fr-FR, sv-SE'')))"
  using handler_unsupported_language[OF assms, of w]
  by (simp add: unsupported_language_def join_supported js_append[symmetric])

text \<open>The theorem at the language code xx-XX.\<close>

theorem unsupported_language_rejected_witness:
  "CallTool_handler example_world
     \<lparr>params_name = js ''synthesize_speech'',
      params_arguments = Some [js ''sentence'' \<mapsto> JStr (js ''Test sentence''),
                               js ''language'' \<mapsto> JStr (js ''xx-XX'')]\<rparr>
   = ([], Inl (Error (js ''Unsupported language: xx-XX. Supported languages: en-US, fi-FI, es-ES, de-DE, fr-FR, sv-SE'')))"
proof -
  let ?args = "[js ''sentence'' \<mapsto> JStr (js ''Test sentence''),
                js ''language'' \<mapsto> JStr (js ''xx-XX'')]"
  have "CallTool_handler example_world
          \<lparr>params_name = js ''synthesize_speech'', params_arguments = Some ?args\<rparr>
        = ([], Inl (Error (js ''Unsupported language: '' @ js ''xx-XX''
                           @ js ''. Supported languages: en-US, fi-FI, es-ES, de-DE, fr-FR, sv-SE'')))"
    by (rule unsupported_language_rejected[where args = ?args])
       (simp_all add: valid_parameter_def property_def supportedLanguages_def)
  then show ?thesis
    by (simp add: js_append[symmetric])
qed

text \<open>
  The claim as stated covers every call with a language outside the supported set. The
  sentence is checked first, so a call that has the language xx-XX and no sentence is
  rejected with the message about the sentence, which names neither the language nor the
  supported set; and a language that is the empty string is rejected as missing.
\<close>

theorem unsupported_language_precedence_counterexample:
  "CallTool_handler example_world
     \<lparr>params_name = js ''synthesize_speech'',
      params_arguments = Some [js ''language'' \<mapsto> JStr (js ''xx-XX'')]\<rparr>
   = ([], Inl (Error (js ''Invalid or missing \"sentence\" parameter'')))
   \<and> CallTool_handler example_world
     \<lparr>params_name = js ''synthesize_speech'',
      params_arguments = Some [js ''sentence'' \<mapsto> JStr (js ''Test sentence''),
                               js ''language'' \<mapsto> JStr (js '''')]\<rparr>
   = ([], Inl (Error (js ''Invalid or missing \"language\" parameter'')))"
  by (simp add: CallTool_handler_def property_def invalid_sentence_def invalid_language_def)

text \<open>
  C10. For every call of the registered tool whose \<open>sentence\<close> argument is present but
  falsy (the empty string, null, false, zero) or not a string, the handler raises the
  error \<open>Invalid or missing "sentence" parameter\<close>, exactly what it does for the same call
  with the \<open>sentence\<close> property removed.
\<close>

theorem empty_sentence_same_as_missing:
  assumes "params_name params = js ''synthesize_speech''"
      and "params_arguments params = Some args"
      and "args (js ''sentence'') = Some v"
      and "\<not> truthy v \<or> \<not> typeof_string v"
  shows "CallTool_handler w params
           = ([], Inl (Error (js ''Invalid or missing \"sentence\" parameter'')))
       \<and> CallTool_handler w (params\<lparr>params_arguments := Some (args(js ''sentence'' := None))\<rparr>)
           = CallTool_handler w params"
proof -
  have p: "property args (js ''sentence'') = v"
    using assms(3) by (simp add: property_def)
  have i: "\<not> valid_parameter (property args (js ''sentence''))"
    using assms(4) p by (simp add: valid_parameter_def)
  have j: "\<not> valid_parameter (property (args(js ''sentence'' := None)) (js ''sentence''))"
    by (simp add: valid_parameter_def property_def)
  have "CallTool_handler w params = ([], Inl invalid_sentence)"
    by (rule handler_invalid_sentence[OF assms(1,2) i])
  moreover
  have "CallTool_handler w (params\<lparr>params_arguments := Some (args(js ''sentence'' := None))\<rparr>)
          = ([], Inl invalid_sentence)"
    by (rule handler_invalid_sentence[OF _ _ j]) (simp_all add: assms(1))
  ultimately show ?thesis
    by (simp add: invalid_sentence_def)
qed

text \<open>The theorem at the empty string.\<close>

theorem empty_sentence_same_as_missing_witness:
  "CallTool_handler example_world
     \<lparr>params_name = js ''synthesize_speech'',
      params_arguments = Some [js ''sentence'' \<mapsto> JStr (js ''''),
                               js ''language'' \<mapsto> JStr (js ''en-US'')]\<rparr>
   = ([], Inl (Error (js ''Invalid or missing \"sentence\" parameter'')))
   \<and> CallTool_handler example_world
     \<lparr>params_name = js ''synthesize_speech'',
      params_arguments = Some [js ''language'' \<mapsto> JStr (js ''en-US'')]\<rparr>
   = ([], Inl (Error (js ''Invalid or missing \"sentence\" parameter'')))"
proof -
  let ?args = "[js ''sentence'' \<mapsto> JStr (js ''''), js ''language'' \<mapsto> JStr (js ''en-US'')]"
  let ?p = "\<lparr>params_name = js ''synthesize_speech'', params_arguments = Some ?args\<rparr>"
  have e: "?args(js ''sentence'' := None) = [js ''language'' \<mapsto> JStr (js ''en-US'')]"
    by (rule ext) simp
  have "CallTool_handler example_world ?p
           = ([], Inl (Error (js ''Invalid or missing \"sentence\" parameter'')))
       \<and> CallTool_handler example_world (?p\<lparr>params_arguments := Some (?args(js ''sentence'' := None))\<rparr>)
           = CallTool_handler example_world ?p"
    by (rule empty_sentence_same_as_missing[where v = "JStr (js '''')"]) simp_all
  then show ?thesis
    by (simp add: e)
qed

section \<open>The listed tool\<close>

text \<open>
  C9. A \<open>tools/list\<close> request returns exactly one tool descriptor, named
  \<open>synthesize_speech\<close>. Its schema requires \<open>sentence\<close> and \<open>language\<close>, bounds
  \<open>sentence\<close> to 1 to 1000 characters, restricts \<open>language\<close> to the six supported codes
  (the codes the handler accepts, which are the codes of the voice configuration), and
  leaves \<open>voice\<close> optional and free-form: a string with no enumeration and no bounds.
\<close>

theorem one_tool_listed:
  "\<exists>t sentence language voice.
     ListTools_handler = [t]
     \<and> tool_name t = js ''synthesize_speech''
     \<and> required (inputSchema t) = [js ''sentence'', js ''language'']
     \<and> map fst (properties (inputSchema t)) = [js ''sentence'', js ''language'', js ''voice'']
     \<and> map_of (properties (inputSchema t)) (js ''sentence'') = Some sentence
     \<and> schema_type sentence = js ''string''
     \<and> minLength sentence = Some 1 \<and> maxLength sentence = Some 1000
     \<and> map_of (properties (inputSchema t)) (js ''language'') = Some language
     \<and> schema_type language = js ''string''
     \<and> enum_values language = Some supportedLanguages
     \<and> length supportedLanguages = 6 \<and> distinct supportedLanguages
     \<and> supportedLanguages = map fst VOICE_CONFIG
     \<and> map_of (properties (inputSchema t)) (js ''voice'') = Some voice
     \<and> schema_type voice = js ''string''
     \<and> js ''voice'' \<notin> set (required (inputSchema t))
     \<and> enum_values voice = None \<and> minLength voice = None \<and> maxLength voice = None"
  by (simp add: ListTools_handler_def supportedLanguages_def VOICE_CONFIG_def)

section \<open>Raised errors and returned failures\<close>

lemma synthesize_write_fails:
  assumes "\<not> env_falsy (AZURE_SPEECH_KEY w)" "getVoiceForLanguage l v = Inr (JStr sv)"
      "sdk w = SpeakResult res" "env_falsy (errorDetails res)"
      "audioData res = Some bytes" "bytes \<noteq> []" "writeFileSync_throws w = Some m"
  shows "synthesizeSpeech w s l v =
           ([FromSubscription (template (AZURE_SPEECH_KEY w)) (AZURE_SPEECH_REGION w),
             NewSynthesizer l sv, SpeakTextAsync s,
             WriteFileSync (path_resolve w (AUDIO_OUTPUT_DIR w)
                              (make_filename l sv (date_toISOString w))) bytes,
             Close], Inl (Error (js ''Failed to save audio file: '' @ m)))"
  using assms
  by (simp add: synthesizeSpeech_def Let_def getVoice_default_parameter region_nonempty
                result_callback_def)

lemma handler_raised_kind:
  assumes "snd (CallTool_handler w params) = Inl e"
  shows "(unknown_tool params \<and> e = Error (js ''Unknown tool: '' @ params_name params))
       \<or> (missing_parameter params
            \<and> (e = TypeError (js ''Cannot destructure property 'sentence' of 'args' as it is undefined.'')
               \<or> e = invalid_sentence \<or> e = invalid_language))
       \<or> (unsupported_language_code params \<and> (\<exists>language. e = unsupported_language language))"
  using assms
  by (auto simp: CallTool_handler_def Let_def unknown_tool_def missing_parameter_def
                 unsupported_language_code_def valid_parameter_iff
           split: if_splits option.splits jsval.splits prod.splits sum.splits)

lemma synthesize_outcome:
  assumes "\<not> env_falsy (AZURE_SPEECH_KEY w)" "getVoiceForLanguage l v = Inr (JStr sv)"
  shows "snd (synthesizeSpeech w s l v) =
     (case sdk w of
        ConfigThrows m \<Rightarrow> Inl (Error (js ''Speech synthesis setup error: '' @ m))
      | ConstructorThrows m \<Rightarrow> Inl (Error (js ''Speech synthesis setup error: '' @ m))
      | SpeakThrows m \<Rightarrow> Inl (Error (js ''Speech synthesis setup error: '' @ m))
      | SpeakError e \<Rightarrow> Inl (Error (js ''Speech synthesis error: '' @ e))
      | SpeakResult res \<Rightarrow>
          snd (result_callback w s l sv (make_filename l sv (date_toISOString w))
                 (path_resolve w (AUDIO_OUTPUT_DIR w) (make_filename l sv (date_toISOString w)))
                 (length (split_whitespace [] s)) res))"
  using assms
  by (simp add: synthesizeSpeech_def Let_def getVoice_default_parameter region_nonempty
                setup_error_def split: sdk_behaviour.splits prod.splits)

lemma result_callback_failures:
  "(errorDetails res = Some d \<and> d \<noteq> [] \<longrightarrow>
      snd (result_callback w s l sv f p n res) = Inl (Error (js ''Speech synthesis failed: '' @ d)))
   \<and> (env_falsy (errorDetails res) \<and> (audioData res = None \<or> audioData res = Some []) \<longrightarrow>
      snd (result_callback w s l sv f p n res)
        = Inl (Error (js ''Speech synthesis produced no audio data'')))
   \<and> (env_falsy (errorDetails res) \<and> audioData res = Some bytes \<and> bytes \<noteq> []
        \<and> writeFileSync_throws w = Some m \<longrightarrow>
      snd (result_callback w s l sv f p n res)
        = Inl (Error (js ''Failed to save audio file: '' @ m)))"
  by (auto simp: result_callback_def Let_def env_falsy_def template_def no_audio_message_def)

lemma unsupported_language_literal:
  "unsupported_language language =
     Error (js ''Unsupported language: '' @ language
            @ js ''. Supported languages: en-US, fi-FI, es-ES, de-DE, fr-FR, sv-SE'')"
  by (simp add: unsupported_language_def join_supported js_append[symmetric])

lemma handler_raised_literal:
  assumes "snd (CallTool_handler w params) = Inl e"
  shows "(unknown_tool params \<and> e = Error (js ''Unknown tool: '' @ params_name params))
       \<or> (missing_parameter params
            \<and> (e = TypeError (js ''Cannot destructure property 'sentence' of 'args' as it is undefined.'')
               \<or> e = Error (js ''Invalid or missing \"sentence\" parameter'')
               \<or> e = Error (js ''Invalid or missing \"language\" parameter'')))
       \<or> (unsupported_language_code params
            \<and> (\<exists>language. e = Error (js ''Unsupported language: '' @ language
                   @ js ''. Supported languages: en-US, fi-FI, es-ES, de-DE, fr-FR, sv-SE'')))"
  using handler_raised_kind[OF assms]
  unfolding unsupported_language_literal invalid_sentence_def invalid_language_def
  by blast

text \<open>
  C1. For every \<open>tools/call\<close> request the handler raises an error exactly when the tool
  name is unknown, a required parameter (\<open>sentence\<close> or \<open>language\<close>) is missing or
  malformed, or the language code is unsupported; it then has made no call to the SDK or
  the file system, and the error raised is the one of that kind, with the message given
  below. A request without an \<open>arguments\<close> object lacks both required parameters; what is
  raised there is the runtime's TypeError from the destructuring, not a message of the
  handler's own. In every other case the handler returns a normal response with exactly
  one item of type \<open>text\<close>: the success text when the synthesis resolved, and otherwise
  the failure line with the message of the rejection, followed by the troubleshooting
  tips. The synthesis resolves only when the key is present, the SDK reported a result
  without error details, the audio is not empty and the file was written. For a supported
  language each failure rejects with its own message: absent credentials, an exception
  of the SDK, its error callback, its error details, empty audio, and a failed write. So
  all of these end in the failure text and never in a raised error.
\<close>

theorem protocol_errors_and_domain_failures:
  "((\<exists>e. snd (CallTool_handler w params) = Inl e) \<longleftrightarrow>
       unknown_tool params \<or> missing_parameter params \<or> unsupported_language_code params)
   \<and> (\<forall>e. snd (CallTool_handler w params) = Inl e \<longrightarrow>
         fst (CallTool_handler w params) = []
         \<and> ((unknown_tool params \<and> e = Error (js ''Unknown tool: '' @ params_name params))
            \<or> (missing_parameter params
                 \<and> (e = TypeError (js ''Cannot destructure property 'sentence' of 'args' as it is undefined.'')
                    \<or> e = Error (js ''Invalid or missing \"sentence\" parameter'')
                    \<or> e = Error (js ''Invalid or missing \"language\" parameter'')))
            \<or> (unsupported_language_code params
                 \<and> (\<exists>language. e = Error (js ''Unsupported language: '' @ language
                        @ js ''. Supported languages: en-US, fi-FI, es-ES, de-DE, fr-FR, sv-SE'')))))
   \<and> (\<forall>resp. snd (CallTool_handler w params) = Inr resp \<longrightarrow>
         (\<exists>args sentence language.
             params_arguments params = Some args
           \<and> property args (js ''sentence'') = JStr sentence
           \<and> property args (js ''language'') = JStr language
           \<and> language \<in> set supportedLanguages
           \<and> (case snd (synthesizeSpeech w sentence language (property args (js ''voice''))) of
                 Inl error \<Rightarrow>
                   (\<exists>m. error = Error m
                      \<and> resp = \<lparr>content = [\<lparr>item_type = js ''text'',
                           item_text = [8218, 249, 229] @ js '' Speech synthesis failed: '' @ m
                             @ js ''\<newline>\<newline>**Troubleshooting Tips:**\<newline>- Check that Azure Speech Service credentials are properly configured\<newline>- Verify the language code is supported: en-US, fi-FI, es-ES, de-DE, fr-FR, sv-SE\<newline>- Ensure the sentence is not empty and under 1000 characters\<newline>- Check that the voice name (if specified) is valid for the selected language''\<rparr>]\<rparr>)
               | Inr result \<Rightarrow>
                   resp = \<lparr>content = [\<lparr>item_type = js ''text'',
                                       item_text = success_text w result\<rparr>]\<rparr>
                   \<and> (\<exists>rest. success_text w result =
                         [63743, 252, 233, 181]
                         @ js '' Speech synthesis completed successfully!\<newline>\<newline>**Audio Details:**\<newline>- File: ''
                         @ r_filename result @ rest))))
   \<and> (\<forall>sentence language voice result.
         snd (synthesizeSpeech w sentence language voice) = Inr result \<longrightarrow>
           \<not> env_falsy (AZURE_SPEECH_KEY w)
         \<and> (\<exists>res bytes. sdk w = SpeakResult res \<and> env_falsy (errorDetails res)
                \<and> audioData res = Some bytes \<and> bytes \<noteq> []
                \<and> writeFileSync_throws w = None))
   \<and> (\<forall>sentence language voice. language \<in> set supportedLanguages \<longrightarrow>
         (env_falsy (AZURE_SPEECH_KEY w) \<longrightarrow>
            snd (synthesizeSpeech w sentence language voice) = Inl (Error (js ''Azure Speech Service credentials not configured. Please set AZURE_SPEECH_KEY and AZURE_SPEECH_REGION environment variables.'')))
       \<and> (\<not> env_falsy (AZURE_SPEECH_KEY w) \<longrightarrow>
            (\<forall>m. sdk w = ConfigThrows m \<or> sdk w = ConstructorThrows m \<or> sdk w = SpeakThrows m \<longrightarrow>
               snd (synthesizeSpeech w sentence language voice)
                 = Inl (Error (js ''Speech synthesis setup error: '' @ m)))
          \<and> (\<forall>e. sdk w = SpeakError e \<longrightarrow>
               snd (synthesizeSpeech w sentence language voice)
                 = Inl (Error (js ''Speech synthesis error: '' @ e)))
          \<and> (\<forall>res. sdk w = SpeakResult res \<longrightarrow>
               (\<forall>d. errorDetails res = Some d \<and> d \<noteq> [] \<longrightarrow>
                  snd (synthesizeSpeech w sentence language voice)
                    = Inl (Error (js ''Speech synthesis failed: '' @ d)))
             \<and> (env_falsy (errorDetails res)
                  \<and> (audioData res = None \<or> audioData res = Some []) \<longrightarrow>
                  snd (synthesizeSpeech w sentence language voice)
                    = Inl (Error (js ''Speech synthesis produced no audio data'')))
             \<and> (\<forall>bytes m. env_falsy (errorDetails res) \<and> audioData res = Some bytes
                    \<and> bytes \<noteq> [] \<and> writeFileSync_throws w = Some m \<longrightarrow>
                  snd (synthesizeSpeech w sentence language voice)
                    = Inl (Error (js ''Failed to save audio file: '' @ m))))))"
proof (intro conjI allI impI)
  show "(\<exists>e. snd (CallTool_handler w params) = Inl e) \<longleftrightarrow>
       unknown_tool params \<or> missing_parameter params \<or> unsupported_language_code params"
    by (rule handler_raises_iff)
next
  fix e assume "snd (CallTool_handler w params) = Inl e"
  then show "fst (CallTool_handler w params) = []"
    using handler_raised_error by blast
next
  fix e assume "snd (CallTool_handler w params) = Inl e"
  then show "(unknown_tool params \<and> e = Error (js ''Unknown tool: '' @ params_name params))
            \<or> (missing_parameter params
                 \<and> (e = TypeError (js ''Cannot destructure property 'sentence' of 'args' as it is undefined.'')
                    \<or> e = Error (js ''Invalid or missing \"sentence\" parameter'')
                    \<or> e = Error (js ''Invalid or missing \"language\" parameter'')))
            \<or> (unsupported_language_code params
                 \<and> (\<exists>language. e = Error (js ''Unsupported language: '' @ language
                        @ js ''. Supported languages: en-US, fi-FI, es-ES, de-DE, fr-FR, sv-SE'')))"
    by (rule handler_raised_literal)
next
  fix resp assume r: "snd (CallTool_handler w params) = Inr resp"
  from handler_returned_response[OF r] obtain args s l where
    a: "params_arguments params = Some args" "property args (js ''sentence'') = JStr s"
       "property args (js ''language'') = JStr l"
       "resp = text_response
                 (case snd (synthesizeSpeech w s l (property args (js ''voice''))) of
                    Inl error \<Rightarrow> failure_text (message error)
                  | Inr result \<Rightarrow> success_text w result)"
    by blast
  from r have "\<not> (unknown_tool params \<or> missing_parameter params \<or> unsupported_language_code params)"
    using handler_raises_iff[of w params] by auto
  with a have sup: "l \<in> set supportedLanguages"
    by (simp add: unsupported_language_code_def)
  have c: "case snd (synthesizeSpeech w s l (property args (js ''voice''))) of
                 Inl error \<Rightarrow>
                   (\<exists>m. error = Error m
                      \<and> resp = \<lparr>content = [\<lparr>item_type = js ''text'',
                           item_text = [8218, 249, 229] @ js '' Speech synthesis failed: '' @ m
                             @ js ''\<newline>\<newline>**Troubleshooting Tips:**\<newline>- Check that Azure Speech Service credentials are properly configured\<newline>- Verify the language code is supported: en-US, fi-FI, es-ES, de-DE, fr-FR, sv-SE\<newline>- Ensure the sentence is not empty and under 1000 characters\<newline>- Check that the voice name (if specified) is valid for the selected language''\<rparr>]\<rparr>)
               | Inr result \<Rightarrow>
                   resp = \<lparr>content = [\<lparr>item_type = js ''text'',
                                       item_text = success_text w result\<rparr>]\<rparr>
                   \<and> (\<exists>rest. success_text w result =
                         [63743, 252, 233, 181]
                         @ js '' Speech synthesis completed successfully!\<newline>\<newline>**Audio Details:**\<newline>- File: ''
                         @ r_filename result @ rest)"
  proof (cases "snd (synthesizeSpeech w s l (property args (js ''voice'')))")
    case (Inl error)
    then obtain calls where "synthesizeSpeech w s l (property args (js ''voice'')) = (calls, Inl error)"
      by (cases "synthesizeSpeech w s l (property args (js ''voice''))") auto
    from synthesize_rejects_with_Error[OF this] obtain m where "error = Error m" ..
    with Inl a(4) show ?thesis
      by (simp add: failure_response_literal)
  next
    case (Inr result)
    with a(4) success_text_begins[of w result] show ?thesis
      by (simp add: text_response_def)
  qed
  from a(1,2,3) sup c
  show "\<exists>args sentence language.
             params_arguments params = Some args
           \<and> property args (js ''sentence'') = JStr sentence
           \<and> property args (js ''language'') = JStr language
           \<and> language \<in> set supportedLanguages
           \<and> (case snd (synthesizeSpeech w sentence language (property args (js ''voice''))) of
                 Inl error \<Rightarrow>
                   (\<exists>m. error = Error m
                      \<and> resp = \<lparr>content = [\<lparr>item_type = js ''text'',
                           item_text = [8218, 249, 229] @ js '' Speech synthesis failed: '' @ m
                             @ js ''\<newline>\<newline>**Troubleshooting Tips:**\<newline>- Check that Azure Speech Service credentials are properly configured\<newline>- Verify the language code is supported: en-US, fi-FI, es-ES, de-DE, fr-FR, sv-SE\<newline>- Ensure the sentence is not empty and under 1000 characters\<newline>- Check that the voice name (if specified) is valid for the selected language''\<rparr>]\<rparr>)
               | Inr result \<Rightarrow>
                   resp = \<lparr>content = [\<lparr>item_type = js ''text'',
                                       item_text = success_text w result\<rparr>]\<rparr>
                   \<and> (\<exists>rest. success_text w result =
                         [63743, 252, 233, 181]
                         @ js '' Speech synthesis completed successfully!\<newline>\<newline>**Audio Details:**\<newline>- File: ''
                         @ r_filename result @ rest))"
    by blast
next
  fix sentence language voice result
  assume "snd (synthesizeSpeech w sentence language voice) = Inr result"
  from synthesize_resolved_only_without_failure[OF this]
  show "\<not> env_falsy (AZURE_SPEECH_KEY w)"
    and "\<exists>res bytes. sdk w = SpeakResult res \<and> env_falsy (errorDetails res)
                \<and> audioData res = Some bytes \<and> bytes \<noteq> []
                \<and> writeFileSync_throws w = None"
    by simp_all
next
  fix sentence language voice
  assume "language \<in> set supportedLanguages" "env_falsy (AZURE_SPEECH_KEY w)"
  then show "snd (synthesizeSpeech w sentence language voice) = Inl (Error (js ''Azure Speech Service credentials not configured. Please set AZURE_SPEECH_KEY and AZURE_SPEECH_REGION environment variables.''))"
    by (simp add: synthesize_without_credentials credentials_message_def)
next
  fix sentence language voice m
  assume l: "language \<in> set supportedLanguages" and k: "\<not> env_falsy (AZURE_SPEECH_KEY w)"
    and t: "sdk w = ConfigThrows m \<or> sdk w = ConstructorThrows m \<or> sdk w = SpeakThrows m"
  from getVoice_supported[OF l] obtain sv where
    sv: "getVoiceForLanguage language voice = Inr (JStr sv)" by blast
  from t show "snd (synthesizeSpeech w sentence language voice)
                 = Inl (Error (js ''Speech synthesis setup error: '' @ m))"
    by (auto simp: synthesize_outcome[OF k sv])
next
  fix sentence language voice e
  assume l: "language \<in> set supportedLanguages" and k: "\<not> env_falsy (AZURE_SPEECH_KEY w)"
    and t: "sdk w = SpeakError e"
  from getVoice_supported[OF l] obtain sv where
    sv: "getVoiceForLanguage language voice = Inr (JStr sv)" by blast
  from t show "snd (synthesizeSpeech w sentence language voice)
                 = Inl (Error (js ''Speech synthesis error: '' @ e))"
    by (simp add: synthesize_outcome[OF k sv])
next
  fix sentence language voice res d
  assume l: "language \<in> set supportedLanguages" and k: "\<not> env_falsy (AZURE_SPEECH_KEY w)"
    and t: "sdk w = SpeakResult res" and d: "errorDetails res = Some d \<and> d \<noteq> []"
  from getVoice_supported[OF l] obtain sv where
    sv: "getVoiceForLanguage language voice = Inr (JStr sv)" by blast
  from t d show "snd (synthesizeSpeech w sentence language voice)
                    = Inl (Error (js ''Speech synthesis failed: '' @ d))"
    using result_callback_failures[where res = res and d = d]
    by (simp add: synthesize_outcome[OF k sv])
next
  fix sentence language voice res
  assume l: "language \<in> set supportedLanguages" and k: "\<not> env_falsy (AZURE_SPEECH_KEY w)"
    and t: "sdk w = SpeakResult res"
    and d: "env_falsy (errorDetails res) \<and> (audioData res = None \<or> audioData res = Some [])"
  from getVoice_supported[OF l] obtain sv where
    sv: "getVoiceForLanguage language voice = Inr (JStr sv)" by blast
  from t d show "snd (synthesizeSpeech w sentence language voice)
                    = Inl (Error (js ''Speech synthesis produced no audio data''))"
    using result_callback_failures[where res = res]
    by (simp add: synthesize_outcome[OF k sv])
next
  fix sentence language voice res bytes m
  assume l: "language \<in> set supportedLanguages" and k: "\<not> env_falsy (AZURE_SPEECH_KEY w)"
    and t: "sdk w = SpeakResult res"
    and d: "env_falsy (errorDetails res) \<and> audioData res = Some bytes
                    \<and> bytes \<noteq> [] \<and> writeFileSync_throws w = Some m"
  from getVoice_supported[OF l] obtain sv where
    sv: "getVoiceForLanguage language voice = Inr (JStr sv)" by blast
  from t d show "snd (synthesizeSpeech w sentence language voice)
                    = Inl (Error (js ''Failed to save audio file: '' @ m))"
    using result_callback_failures[where res = res and bytes = bytes and w = w and m = m]
    by (simp add: synthesize_outcome[OF k sv])
qed

text \<open>
  The theorem at a call of an unknown tool, and at the example call in a world where the
  file cannot be written.
\<close>

theorem protocol_errors_and_domain_failures_witness:
  "snd (CallTool_handler example_world (example_call\<lparr>params_name := js ''unknown_tool''\<rparr>))
     = Inl (Error (js ''Unknown tool: unknown_tool''))
   \<and> snd (CallTool_handler
            (example_world\<lparr>writeFileSync_throws := Some (js ''EACCES: permission denied'')\<rparr>)
            example_call)
     = Inr \<lparr>content = [\<lparr>item_type = js ''text'',
         item_text = [8218, 249, 229] @ js '' Speech synthesis failed: ''
           @ js ''Failed to save audio file: EACCES: permission denied''
           @ js ''\<newline>\<newline>**Troubleshooting Tips:**\<newline>- Check that Azure Speech Service credentials are properly configured\<newline>- Verify the language code is supported: en-US, fi-FI, es-ES, de-DE, fr-FR, sv-SE\<newline>- Ensure the sentence is not empty and under 1000 characters\<newline>- Check that the voice name (if specified) is valid for the selected language''\<rparr>]\<rparr>"
proof -
  let ?p = "example_call\<lparr>params_name := js ''unknown_tool''\<rparr>"
  let ?w = "example_world\<lparr>writeFileSync_throws := Some (js ''EACCES: permission denied'')\<rparr>"
  let ?res = "\<lparr>errorDetails = None, audioData = Some [82, 73, 70, 70],
               audioDuration = Some 15000000\<rparr>"
  note t1 = protocol_errors_and_domain_failures[of example_world ?p]
  note t2 = protocol_errors_and_domain_failures[of ?w example_call]
  note raises1 = t1[THEN conjunct1]
  note kind1 = t1[THEN conjunct2, THEN conjunct1, rule_format, THEN conjunct2]
  note raises2 = t2[THEN conjunct1]
  note returned2 = t2[THEN conjunct2, THEN conjunct2, THEN conjunct1, rule_format]
  note failures2 = t2[THEN conjunct2, THEN conjunct2, THEN conjunct2, THEN conjunct2, rule_format]
  have u: "unknown_tool ?p" "\<not> missing_parameter ?p" "\<not> unsupported_language_code ?p"
    by (simp_all add: unknown_tool_def missing_parameter_def unsupported_language_code_def
                      valid_parameter_def property_def example_call_def supportedLanguages_def)
  from raises1 u obtain e where e: "snd (CallTool_handler example_world ?p) = Inl e" by blast
  from kind1[OF e] u have "e = Error (js ''Unknown tool: '' @ params_name ?p)" by blast
  with e have first: "snd (CallTool_handler example_world ?p)
                       = Inl (Error (js ''Unknown tool: unknown_tool''))"
    by (simp add: js_append[symmetric])
  have k: "\<not> unknown_tool example_call" "\<not> missing_parameter example_call"
          "\<not> unsupported_language_code example_call"
    by (simp_all add: unknown_tool_def missing_parameter_def unsupported_language_code_def
                      valid_parameter_def property_def example_call_def supportedLanguages_def)
  with raises2 have "\<not> (\<exists>e. snd (CallTool_handler ?w example_call) = Inl e)" by blast
  then obtain resp where resp: "snd (CallTool_handler ?w example_call) = Inr resp"
    by (cases "snd (CallTool_handler ?w example_call)") auto
  from returned2[OF resp] obtain args sentence language where
    sup: "language \<in> set supportedLanguages" and
    body: "case snd (synthesizeSpeech ?w sentence language (property args (js ''voice''))) of
                 Inl error \<Rightarrow>
                   (\<exists>m. error = Error m
                      \<and> resp = \<lparr>content = [\<lparr>item_type = js ''text'',
                           item_text = [8218, 249, 229] @ js '' Speech synthesis failed: '' @ m
                             @ js ''\<newline>\<newline>**Troubleshooting Tips:**\<newline>- Check that Azure Speech Service credentials are properly configured\<newline>- Verify the language code is supported: en-US, fi-FI, es-ES, de-DE, fr-FR, sv-SE\<newline>- Ensure the sentence is not empty and under 1000 characters\<newline>- Check that the voice name (if specified) is valid for the selected language''\<rparr>]\<rparr>)
               | Inr result \<Rightarrow>
                   resp = \<lparr>content = [\<lparr>item_type = js ''text'',
                                       item_text = success_text ?w result\<rparr>]\<rparr>
                   \<and> (\<exists>rest. success_text ?w result =
                         [63743, 252, 233, 181]
                         @ js '' Speech synthesis completed successfully!\<newline>\<newline>**Audio Details:**\<newline>- File: ''
                         @ r_filename result @ rest)"
    by (elim exE conjE)
  have kw: "\<not> env_falsy (AZURE_SPEECH_KEY ?w)"
    using example_key by (simp add: AZURE_SPEECH_KEY_def)
  have sdk: "sdk ?w = SpeakResult ?res"
    by (simp add: example_fields)
  have d: "env_falsy (errorDetails ?res) \<and> audioData ?res = Some [82, 73, 70, 70]
       \<and> [82, 73, 70, 70] \<noteq> ([] :: nat list)
       \<and> writeFileSync_throws ?w = Some (js ''EACCES: permission denied'')"
    by (simp add: env_falsy_def)
  note after_key = failures2[OF sup, THEN conjunct2, rule_format, OF kw]
  note on_result = after_key[THEN conjunct2, THEN conjunct2, rule_format, OF sdk]
  note on_write = on_result[THEN conjunct2, THEN conjunct2, rule_format, OF d]
  have m: "js ''Failed to save audio file: '' @ js ''EACCES: permission denied''
            = js ''Failed to save audio file: EACCES: permission denied''"
    by (simp add: js_append[symmetric])
  have rejected: "snd (synthesizeSpeech ?w sentence language (property args (js ''voice'')))
          = Inl (Error (js ''Failed to save audio file: EACCES: permission denied''))"
    using on_write[of sentence "property args (js ''voice'')"] by (simp only: m)
  from body have "resp = \<lparr>content = [\<lparr>item_type = js ''text'',
         item_text = [8218, 249, 229] @ js '' Speech synthesis failed: ''
           @ js ''Failed to save audio file: EACCES: permission denied''
           @ js ''\<newline>\<newline>**Troubleshooting Tips:**\<newline>- Check that Azure Speech Service credentials are properly configured\<newline>- Verify the language code is supported: en-US, fi-FI, es-ES, de-DE, fr-FR, sv-SE\<newline>- Ensure the sentence is not empty and under 1000 characters\<newline>- Check that the voice name (if specified) is valid for the selected language''\<rparr>]\<rparr>"
    unfolding rejected by simp
  with resp first show ?thesis by simp
qed

section \<open>The length of the sentence\<close>

text \<open>
  C3. The claim is that a call whose \<open>sentence\<close> is longer than the declared 1000
  characters is rejected before synthesis. The handler never compares the length with a
  bound: in the example world a sentence of 1001 characters is passed to
  \<open>speakTextAsync\<close>, and the response is the success text.
\<close>

theorem long_sentence_reaches_synthesis:
  "length (replicate 1001 (cu CHR ''a'')) = 1001
   \<and> SpeakTextAsync (replicate 1001 (cu CHR ''a''))
       \<in> set (fst (CallTool_handler example_world
            \<lparr>params_name = js ''synthesize_speech'',
             params_arguments = Some [js ''sentence'' \<mapsto> JStr (replicate 1001 (cu CHR ''a'')),
                                      js ''language'' \<mapsto> JStr (js ''en-US'')]\<rparr>))
   \<and> (\<exists>result. snd (CallTool_handler example_world
            \<lparr>params_name = js ''synthesize_speech'',
             params_arguments = Some [js ''sentence'' \<mapsto> JStr (replicate 1001 (cu CHR ''a'')),
                                      js ''language'' \<mapsto> JStr (js ''en-US'')]\<rparr>)
         = Inr (text_response (success_text example_world result)))"
proof -
  let ?s = "replicate 1001 (cu CHR ''a'')"
  let ?args = "[js ''sentence'' \<mapsto> JStr ?s, js ''language'' \<mapsto> JStr (js ''en-US'')]"
  let ?p = "\<lparr>params_name = js ''synthesize_speech'', params_arguments = Some ?args\<rparr>"
  have h: "CallTool_handler example_world ?p =
          (fst (synthesizeSpeech example_world ?s (js ''en-US'') (property ?args (js ''voice''))),
           Inr (text_response
                 (case snd (synthesizeSpeech example_world ?s (js ''en-US'') (property ?args (js ''voice''))) of
                    Inl e \<Rightarrow> failure_text (message e)
                  | Inr r \<Rightarrow> success_text example_world r)))"
    by (rule handler_valid[where args = ?args])
       (simp_all add: property_def en_US_supported)
  have v: "property ?args (js ''voice'') = JUndefined"
    by (simp add: property_def)
  from synthesize_resolves[OF example_key example_voice, where bytes = "[82, 73, 70, 70]" and s = ?s
         and res = "\<lparr>errorDetails = None, audioData = Some [82, 73, 70, 70],
                        audioDuration = Some 15000000\<rparr>"]
  obtain r where r: "synthesizeSpeech example_world ?s (js ''en-US'') JUndefined =
           ([FromSubscription (template (AZURE_SPEECH_KEY example_world)) (AZURE_SPEECH_REGION example_world),
             NewSynthesizer (js ''en-US'') (js ''en-US-RyanMultilingualNeural''), SpeakTextAsync ?s,
             WriteFileSync (path_resolve example_world (AUDIO_OUTPUT_DIR example_world)
                 (make_filename (js ''en-US'') (js ''en-US-RyanMultilingualNeural'')
                    (date_toISOString example_world))) [82, 73, 70, 70],
             Close], Inr r)"
    by (auto simp: example_fields env_falsy_def)
  show ?thesis
    unfolding h v r by auto
qed

end
